theory Spec2Isabelle
  imports Main
begin

chapter \<open>The schema-to-type-model compiler of propulsionworks/cloudformation\<close>

text \<open>
  A shallow embedding of the build library: the type model (\<^verbatim>\<open>type-nodes.ts\<close>), the object
  merging helpers (\<^verbatim>\<open>object.ts\<close>), the schema walker (\<^verbatim>\<open>resource-builder.ts\<close>), the view
  simplifier (\<^verbatim>\<open>resource-type-simplifier.ts\<close>), the renderer (\<^verbatim>\<open>code-generator.ts\<close>) and the
  loop of \<^verbatim>\<open>generate.ts\<close> that emits the referenced definitions.

  Conventions of the embedding.
  \<^item> A JavaScript object is an association list in insertion order (the order of
    \<^verbatim>\<open>Object.entries\<close>); keys are assumed not to be canonical array indices, which
    JavaScript would enumerate first, nor names inherited from \<^verbatim>\<open>Object.prototype\<close>.
  \<^item> \<^verbatim>\<open>undefined\<close> is \<open>None\<close>; documents come from \<^verbatim>\<open>JSON.parse\<close>, so they are trees without
    shared nodes and without \<^verbatim>\<open>undefined\<close> members.
  \<^item> JSON numbers are integers here: the code only copies and compares them.
  \<^item> An exception is a value \<open>Inl e\<close>; a recursion that the source does not bound takes a
    fuel argument and yields \<open>Inl OutOfFuel\<close> when it runs out.
  \<^item> Strings are byte strings, a character outside ASCII being its UTF-8 bytes.
\<close>

section \<open>JSON values (\<^verbatim>\<open>lib/json.ts\<close>)\<close>

datatype JsonPrimitive = PNull | PBool bool | PNum int | PStr string

datatype JsonValue =
    Prim JsonPrimitive
  | Arr "JsonValue list"
  | Obj "(string \<times> JsonValue) list"

section \<open>The type model (\<^verbatim>\<open>build-lib/type-nodes.ts\<close>)\<close>

text \<open>
  \<open>TypeDocumentation\<close> is a bag of optional fields; it is kept as the object it is at run
  time, a list of the fields that are present.
\<close>

type_synonym TypeDocumentation = "(string \<times> JsonValue) list"

text \<open>
  A \<open>SymbolName\<close> is a string, an \<open>ImportedName\<close> or an \<open>IndexedName\<close>. The two object forms are
  compared by reference in the source (\<^verbatim>\<open>a.name === b.name\<close>); the first argument of
  \<open>Imported\<close> and \<open>Indexed\<close> is that reference. The other arguments of \<open>Imported\<close> are
  \<^verbatim>\<open>exportedName\<close>, \<^verbatim>\<open>moduleName\<close>, \<^verbatim>\<open>name\<close> and \<^verbatim>\<open>typeOnly\<close>.
\<close>

datatype SymbolName =
    Name string
  | Imported nat "string option" string string "bool option"
  | Indexed nat SymbolName "string list"

datatype PrimitiveName = Boolean | Integer | Null | Number | String

text \<open>
  Every node carries its \<^verbatim>\<open>id\<close> (a location string) as the first string argument
  (the second argument of \<open>PrimitiveType\<close>).
\<close>

datatype Type =
    AnyType string
  | ArrayType string ItemInfo
  | ConstType string JsonPrimitive
  | EnumType string "JsonPrimitive list"
  | ObjectType string "(string \<times> PropertyInfo) list" "string list"
  | PrimitiveType PrimitiveName string
  | RecordType string Type
  | ReferenceType string SymbolName
  | UnionType string "Type list"
  | UnknownType string
and ItemInfo = ItemInfo (item_documentation: "TypeDocumentation option") (item_type: Type)
and PropertyInfo =
  PropertyInfo (documentation: "TypeDocumentation option") (isAttribute: "bool option")
    (readOnly: "bool option") (prop_type: Type)

record TypeDefinition =
  def_documentation :: "TypeDocumentation option"
  def_type :: Type

record ResourceType =
  typeName :: string
  attributes :: "TypeDefinition option"
  definitions :: "(string \<times> TypeDefinition) list"
  properties :: TypeDefinition

text \<open>The \<^verbatim>\<open>type\<close> field of a node.\<close>

datatype TypeTag =
    TagAny | TagArray | TagBoolean | TagConst | TagEnum | TagInteger | TagNull | TagNumber
  | TagObject | TagRecord | TagReference | TagString | TagUnion | TagUnknown

fun type_tag :: "Type \<Rightarrow> TypeTag" where
  "type_tag (AnyType _) = TagAny"
| "type_tag (ArrayType _ _) = TagArray"
| "type_tag (ConstType _ _) = TagConst"
| "type_tag (EnumType _ _) = TagEnum"
| "type_tag (ObjectType _ _ _) = TagObject"
| "type_tag (PrimitiveType Boolean _) = TagBoolean"
| "type_tag (PrimitiveType Integer _) = TagInteger"
| "type_tag (PrimitiveType Null _) = TagNull"
| "type_tag (PrimitiveType Number _) = TagNumber"
| "type_tag (PrimitiveType String _) = TagString"
| "type_tag (RecordType _ _) = TagRecord"
| "type_tag (ReferenceType _ _) = TagReference"
| "type_tag (UnionType _ _) = TagUnion"
| "type_tag (UnknownType _) = TagUnknown"

fun type_id :: "Type \<Rightarrow> string" where
  "type_id (AnyType i) = i"
| "type_id (ArrayType i _) = i"
| "type_id (ConstType i _) = i"
| "type_id (EnumType i _) = i"
| "type_id (ObjectType i _ _) = i"
| "type_id (PrimitiveType _ i) = i"
| "type_id (RecordType i _) = i"
| "type_id (ReferenceType i _) = i"
| "type_id (UnionType i _) = i"
| "type_id (UnknownType i) = i"

subsection \<open>\<^verbatim>\<open>isSameType\<close>\<close>

text \<open>\<^verbatim>\<open>a.name === b.name\<close>: strings by value, objects by reference.\<close>

fun same_name :: "SymbolName \<Rightarrow> SymbolName \<Rightarrow> bool" where
  "same_name (Name a) (Name b) = (a = b)"
| "same_name (Imported r _ _ _ _) (Imported r' _ _ _ _) = (r = r')"
| "same_name (Indexed r _ _) (Indexed r' _ _) = (r = r')"
| "same_name _ _ = False"

text \<open>\<^verbatim>\<open>a.every((x, i) => b[i] === x)\<close>; a missing \<^verbatim>\<open>b[i]\<close> is \<^verbatim>\<open>undefined\<close> and differs.\<close>

fun every_eq :: "'a list \<Rightarrow> 'a list \<Rightarrow> bool" where
  "every_eq [] _ = True"
| "every_eq (x # xs) [] = False"
| "every_eq (x # xs) (y # ys) = (y = x \<and> every_eq xs ys)"

lemma size_item_type [termination_simp]: "size (item_type i) < size i"
  by (cases i) simp

text \<open>
  The source first returns true when both arguments are the same node (\<^verbatim>\<open>a === b\<close>). Nodes
  are values here, and on one and the same value the structural comparison below is true as
  well (\<open>isSameType_refl\<close>), so the shortcut changes no result. \<open>every_same_item\<close> and
  \<open>every_same_prop\<close> are the two \<^verbatim>\<open>every\<close> callbacks, walking \<^verbatim>\<open>b\<close> by index.
\<close>

fun isSameType :: "Type \<Rightarrow> Type \<Rightarrow> bool"
  and every_same_item :: "Type list \<Rightarrow> Type list \<Rightarrow> bool"
  and every_same_prop ::
    "(string \<times> PropertyInfo) list \<Rightarrow> (string \<times> PropertyInfo) list \<Rightarrow> bool"
where
  "isSameType a b =
     (case (a, b) of
        (ArrayType _ aItems, ArrayType _ bItems) \<Rightarrow>
          isSameType (item_type aItems) (item_type bItems)
      | (ConstType _ av, ConstType _ bv) \<Rightarrow> av = bv
      | (EnumType _ avs, EnumType _ bvs) \<Rightarrow> length avs = length bvs \<and> every_eq avs bvs
      | (ObjectType _ aProps aReq, ObjectType _ bProps bReq) \<Rightarrow>
          length aReq = length bReq \<and> length aProps = length bProps \<and> every_eq aReq bReq
          \<and> every_same_prop aProps bProps
      | (RecordType _ av, RecordType _ bv) \<Rightarrow> isSameType av bv
      | (ReferenceType _ an, ReferenceType _ bn) \<Rightarrow> same_name an bn
      | (UnionType _ ais, UnionType _ bis) \<Rightarrow>
          length ais = length bis \<and> every_same_item ais bis
      | _ \<Rightarrow> type_tag a = type_tag b)"
| "every_same_item [] _ = True"
| "every_same_item (x # xs) [] = False"
| "every_same_item (x # xs) (y # ys) = (isSameType x y \<and> every_same_item xs ys)"
| "every_same_prop [] _ = True"
| "every_same_prop (x # xs) [] = False"
| "every_same_prop ((aName, PropertyInfo _ _ _ aType) # xs)
     ((bName, PropertyInfo _ _ _ bType) # ys) =
     (bName = aName \<and> isSameType aType bType \<and> every_same_prop xs ys)"

lemmas isSameType_eq = isSameType.simps(1)
declare isSameType.simps(1) [simp del]

subsection \<open>\<^verbatim>\<open>simplifyUnionType\<close>\<close>

text \<open>
  The \<^verbatim>\<open>while\<close> loop over the work list: \<open>items\<close> is the result so far, the second argument
  is \<^verbatim>\<open>working\<close>, whose head is taken by \<^verbatim>\<open>shift\<close> and to whose front the members of a nested
  union are put back by \<^verbatim>\<open>unshift\<close>.
\<close>

function simplify_loop :: "Type list \<Rightarrow> Type list \<Rightarrow> Type list" where
  "simplify_loop items [] = items"
| "simplify_loop items (current # working) =
     (case current of
        UnionType _ its \<Rightarrow> simplify_loop items (its @ working)
      | _ \<Rightarrow>
          if \<not> list_ex (\<lambda>x. isSameType x current) items
          then simplify_loop (items @ [current]) working
          else simplify_loop items working)"
  by pat_completeness auto
termination
  by (relation "measure (\<lambda>(items, working). size_list size working)") auto

text \<open>
  The argument is a \<open>UnionType\<close>, given by its two fields \<^verbatim>\<open>id\<close> and \<^verbatim>\<open>items\<close>; the result
  \<^verbatim>\<open>{ ...type, items }\<close> keeps the \<^verbatim>\<open>id\<close>.
\<close>

definition simplifyUnionType :: "string \<Rightarrow> Type list \<Rightarrow> Type" where
  "simplifyUnionType uid its =
     (let items = simplify_loop [] its in
      if length items = 0 then UnknownType uid
      else if length items = 1 then items ! 0
      else UnionType uid items)"

text \<open>
  The specification's description of the same function, in its words: nested unions are
  flattened, then structural duplicates are removed, keeping first occurrences in order.
\<close>

function flatten_members :: "Type list \<Rightarrow> Type list" where
  "flatten_members [] = []"
| "flatten_members (m # ms) =
     (case m of
        UnionType _ its \<Rightarrow> flatten_members its @ flatten_members ms
      | _ \<Rightarrow> m # flatten_members ms)"
  by pat_completeness auto
termination
  by (relation "measure (size_list size)") auto

fun first_occurrences :: "Type list \<Rightarrow> Type list \<Rightarrow> Type list" where
  "first_occurrences kept [] = kept"
| "first_occurrences kept (m # ms) =
     (if list_ex (\<lambda>k. isSameType k m) kept then first_occurrences kept ms
      else first_occurrences (kept @ [m]) ms)"

definition is_union :: "Type \<Rightarrow> bool" where
  "is_union t = (type_tag t = TagUnion)"

fun no_same_pair :: "Type list \<Rightarrow> bool" where
  "no_same_pair [] = True"
| "no_same_pair (m # ms) = (\<not> list_ex (isSameType m) ms \<and> no_same_pair ms)"

section \<open>JavaScript values and objects\<close>

text \<open>
  What a call can end with instead of a value: a failed \<^verbatim>\<open>assert\<close>, a \<^verbatim>\<open>TypeError\<close> of the
  language, the end of the fuel, or a step into a built-in member of the language (a method
  or the length of an array, a member of \<^verbatim>\<open>Object.prototype\<close>), which this embedding does not
  follow.
\<close>

datatype error = AssertionError string | TypeError string | OutOfFuel | Unmodelled string

text \<open>A string between double quotes, as a message shows it.\<close>

definition quoted :: "string \<Rightarrow> string" where
  "quoted s = [CHR 0x22] @ s @ [CHR 0x22]"

text \<open>Truthiness of a JSON value, as \<^verbatim>\<open>if (x)\<close>, \<^verbatim>\<open>!x\<close> and \<^verbatim>\<open>assert(x)\<close> read it.\<close>

fun truthy :: "JsonValue \<Rightarrow> bool" where
  "truthy (Prim PNull) = False"
| "truthy (Prim (PBool b)) = b"
| "truthy (Prim (PNum n)) = (n \<noteq> 0)"
| "truthy (Prim (PStr s)) = (s \<noteq> [])"
| "truthy (Arr _) = True"
| "truthy (Obj _) = True"

text \<open>\<^verbatim>\<open>a === b\<close> on JSON values: primitives by value, arrays and objects by reference, and
  two places of a document never hold the same array or object.\<close>

fun strict_equal :: "JsonValue \<Rightarrow> JsonValue \<Rightarrow> bool" where
  "strict_equal (Prim a) (Prim b) = (a = b)"
| "strict_equal _ _ = False"

fun digit_char :: "nat \<Rightarrow> char" where
  "digit_char n = char_of (48 + n)"

fun string_of_nat :: "nat \<Rightarrow> string" where
  "string_of_nat n =
     (if n < 10 then [digit_char n] else string_of_nat (n div 10) @ [digit_char (n mod 10)])"

declare string_of_nat.simps [simp del]

fun indexed_from :: "nat \<Rightarrow> 'a list \<Rightarrow> (string \<times> 'a) list" where
  "indexed_from i [] = []"
| "indexed_from i (x # xs) = (string_of_nat i, x) # indexed_from (Suc i) xs"

text \<open>
  \<^verbatim>\<open>Object.entries(x)\<close>, which is also what \<^verbatim>\<open>{ ...x }\<close> copies: the members of an object, the
  indexed elements of an array, the indexed characters of a string, nothing for a number or a
  boolean. (For \<^verbatim>\<open>null\<close>, \<^verbatim>\<open>Object.entries\<close> throws and the spread copies nothing; the
  callers below test for \<^verbatim>\<open>null\<close> where the source would throw.)
\<close>

fun own_entries :: "JsonValue \<Rightarrow> (string \<times> JsonValue) list" where
  "own_entries (Obj kvs) = kvs"
| "own_entries (Arr xs) = indexed_from 0 xs"
| "own_entries (Prim (PStr s)) = indexed_from 0 (map (\<lambda>c. Prim (PStr [c])) s)"
| "own_entries (Prim _) = []"

text \<open>
  Reading a named member, \<^verbatim>\<open>x.key\<close>. The walker reads only schema field names, which an
  array, a string, a number or a boolean does not have.
\<close>

fun get_prop :: "JsonValue \<Rightarrow> string \<Rightarrow> JsonValue option" where
  "get_prop (Obj kvs) key = map_of kvs key"
| "get_prop _ key = None"

definition is_null :: "JsonValue \<Rightarrow> bool" where
  "is_null v = (v = Prim PNull)"

text \<open>\<^verbatim>\<open>obj[key] = value\<close>: an existing member keeps its place, a new one goes last.\<close>

fun obj_set :: "(string \<times> 'v) list \<Rightarrow> string \<Rightarrow> 'v \<Rightarrow> (string \<times> 'v) list" where
  "obj_set [] key v = [(key, v)]"
| "obj_set ((k, w) # kvs) key v = (if k = key then (k, v) # kvs else (k, w) # obj_set kvs key v)"

text \<open>\<^verbatim>\<open>delete obj[key]\<close>.\<close>

definition obj_delete :: "(string \<times> 'v) list \<Rightarrow> string \<Rightarrow> (string \<times> 'v) list" where
  "obj_delete kvs key = filter (\<lambda>kv. fst kv \<noteq> key) kvs"

text \<open>Spreading a value into an array literal, \<^verbatim>\<open>[...x]\<close>: only arrays and strings iterate.\<close>

fun spread :: "JsonValue \<Rightarrow> error + JsonValue list" where
  "spread (Arr xs) = Inr xs"
| "spread (Prim (PStr s)) = Inr (map (\<lambda>c. Prim (PStr [c])) s)"
| "spread _ = Inl (TypeError ''value is not iterable'')"

text \<open>The receiver of \<^verbatim>\<open>x.map(f)\<close>, \<^verbatim>\<open>x.every(f)\<close> and \<^verbatim>\<open>x.some(f)\<close>: only arrays have them.\<close>

fun array_elements :: "JsonValue \<Rightarrow> error + JsonValue list" where
  "array_elements (Arr xs) = Inr xs"
| "array_elements _ = Inl (TypeError ''not a function'')"

section \<open>Merging objects (\<^verbatim>\<open>build-lib/object.ts\<close>)\<close>

text \<open>
  \<open>assign\<close>: each member of each further object overwrites the target's (no member of a
  JSON object is \<^verbatim>\<open>undefined\<close>).
\<close>

definition assign :: "(string \<times> 'v) list \<Rightarrow> (string \<times> 'v) list list \<Rightarrow> (string \<times> 'v) list" where
  "assign target objects =
     foldl (\<lambda>tgt obj. foldl (\<lambda>t (key, v). obj_set t key v) tgt obj) target objects"

text \<open>
  \<open>mergeObjectsWith\<close>. The callback \<open>mergeValues\<close> of the source closes over a variable it
  updates; that variable is the state \<open>'s\<close> here. \<open>merge_member\<close> is the body of the inner
  loop, \<open>merge_object\<close> the inner loop over \<^verbatim>\<open>Object.entries(object)\<close>.

  The source takes its starting object with \<^verbatim>\<open>objects.pop()\<close>, which removes the \<^emph>\<open>last\<close>
  element of the array, and then loops over the elements that remain.
\<close>

definition merge_member ::
  "(JsonValue \<Rightarrow> JsonValue \<Rightarrow> string \<Rightarrow> 's \<Rightarrow> JsonValue \<times> 's)
   \<Rightarrow> (string \<times> JsonValue) list \<times> 's \<Rightarrow> string \<times> JsonValue
   \<Rightarrow> (string \<times> JsonValue) list \<times> 's" where
  "merge_member mergeValues acc member =
     (case (acc, member) of ((result, s), (key, v)) \<Rightarrow>
        (case map_of result key of
           None \<Rightarrow> (obj_set result key v, s)
         | Some a \<Rightarrow> (case mergeValues a v key s of (m, s') \<Rightarrow> (obj_set result key m, s'))))"

definition merge_object ::
  "(JsonValue \<Rightarrow> JsonValue \<Rightarrow> string \<Rightarrow> 's \<Rightarrow> JsonValue \<times> 's)
   \<Rightarrow> (string \<times> JsonValue) list \<times> 's \<Rightarrow> JsonValue
   \<Rightarrow> (string \<times> JsonValue) list \<times> 's" where
  "merge_object mergeValues acc object = foldl (merge_member mergeValues) acc (own_entries object)"

definition mergeObjectsWith ::
  "JsonValue list \<Rightarrow> (JsonValue \<Rightarrow> JsonValue \<Rightarrow> string \<Rightarrow> 's \<Rightarrow> JsonValue \<times> 's) \<Rightarrow> 's
   \<Rightarrow> error + ((string \<times> JsonValue) list \<times> 's)" where
  "mergeObjectsWith objects mergeValues s =
     (if objects = [] \<or> \<not> truthy (last objects)
      then Inl (AssertionError ''expected non-empty array of objects'')
      else if list_ex is_null (butlast objects)
      then Inl (TypeError ''Cannot convert undefined or null to object'')
      else Inr (foldl (merge_object mergeValues) (own_entries (last objects), s)
                  (butlast objects)))"

text \<open>
  \<open>MergeObjectsOptions\<close>: \<open>mergeArrayValues\<close> and \<open>overwriteValues\<close> are a boolean or a
  list of keys.
\<close>

record MergeObjectsOptions =
  mergeArrayValues :: "(bool + string list) option"
  overwriteValues :: "(bool + string list) option"
  uniqueArrayValues :: "bool option"

record MergeObjectsResult =
  conflicts :: "string list option"
  merged_value :: "(string \<times> JsonValue) list"

text \<open>
  \<^verbatim>\<open>[...new Set(result)]\<close>: a \<^verbatim>\<open>Set\<close> keeps the first of equal primitives; arrays and
  objects are compared by reference and all stay.
\<close>

fun unique_values :: "JsonValue list \<Rightarrow> JsonValue list \<Rightarrow> JsonValue list" where
  "unique_values seen [] = seen"
| "unique_values seen (v # vs) =
     (if list_ex (\<lambda>w. strict_equal w v) seen then unique_values seen vs
      else unique_values (seen @ [v]) vs)"

fun is_array :: "JsonValue \<Rightarrow> bool" where
  "is_array (Arr _) = True"
| "is_array _ = False"

text \<open>The callback that \<open>mergeObjects\<close> passes; its state is the list \<^verbatim>\<open>conflicts\<close>.\<close>

definition mergeValues ::
  "MergeObjectsOptions \<Rightarrow> JsonValue \<Rightarrow> JsonValue \<Rightarrow> string \<Rightarrow> string list
   \<Rightarrow> JsonValue \<times> string list" where
  "mergeValues options a b key cs =
     (let mergeArrays =
        (case mergeArrayValues options of
           Some (Inr keys) \<Rightarrow> key \<in> set keys
         | Some (Inl flag) \<Rightarrow> flag \<and> is_array a \<and> is_array b
         | None \<Rightarrow> False)
      in
      if mergeArrays then
        (let result =
           (case (a, b) of
              (Arr xs, Arr ys) \<Rightarrow> xs @ ys
            | (Arr xs, _) \<Rightarrow> xs @ [b]
            | (_, Arr ys) \<Rightarrow> a # ys
            | _ \<Rightarrow> [a, b])
         in (Arr (if uniqueArrayValues options = Some True then unique_values [] result
                  else result), cs))
      else if overwriteValues options = Some (Inl True)
              \<or> (case overwriteValues options of Some (Inr keys) \<Rightarrow> key \<in> set keys | _ \<Rightarrow> False)
      then (b, cs)
      else (a, if \<not> strict_equal a b then cs @ [key] else cs))"

definition mergeObjects :: "JsonValue list \<Rightarrow> MergeObjectsOptions \<Rightarrow> error + MergeObjectsResult" where
  "mergeObjects objects options =
     (case mergeObjectsWith objects (mergeValues options) [] of
        Inl e \<Rightarrow> Inl e
      | Inr (v, cs) \<Rightarrow>
          if length cs > 0 then Inr \<lparr>conflicts = Some cs, merged_value = v\<rparr>
          else Inr \<lparr>conflicts = None, merged_value = v\<rparr>)"

text \<open>\<open>pick\<close> and \<open>splitPick\<close>.\<close>

definition pick :: "JsonValue \<Rightarrow> string list \<Rightarrow> (string \<times> JsonValue) list" where
  "pick object keys =
     foldl (\<lambda>result key. case get_prop object key of None \<Rightarrow> result
                          | Some v \<Rightarrow> obj_set result key v) [] keys"

definition splitPick ::
  "JsonValue \<Rightarrow> string list \<Rightarrow> (string \<times> JsonValue) list \<times> (string \<times> JsonValue) list" where
  "splitPick object keys =
     foldl (\<lambda>(picked, rest) (key, v).
              if key \<in> set keys then (obj_set picked key v, rest)
              else (picked, obj_set rest key v))
       ([], []) (own_entries object)"

section \<open>The schema walker (\<^verbatim>\<open>build-lib/resource-builder.ts\<close>)\<close>

subsection \<open>The builder and its warnings\<close>

text \<open>
  A \<open>SchemaProblemReporter\<close> is given by the calls of \<^verbatim>\<open>warn\<close> it has received: the location,
  the format string and the further arguments of each.
\<close>

record Warning =
  w_location :: string
  w_format :: string
  w_args :: "JsonValue list"

record ResourceDocumenter =
  getAttributeDocs :: "(string \<Rightarrow> string option \<Rightarrow> TypeDocumentation option) option"
  getDefinitionDocs :: "(string \<Rightarrow> string \<Rightarrow> string option \<Rightarrow> TypeDocumentation option) option"
  getResourceDocs :: "(string \<Rightarrow> string option \<Rightarrow> TypeDocumentation option) option"

record ResourceBuilderOptions =
  opt_documenter :: "ResourceDocumenter option"
  opt_problems :: "Warning list option"

text \<open>The keys \<^verbatim>\<open>RelevantKeys\<close> lists for each kind of type, as the module declares them.\<close>

fun RelevantKeys :: "TypeTag \<Rightarrow> string list" where
  "RelevantKeys TagAny = []"
| "RelevantKeys TagArray =
     [''arrayType'', ''insertionOrder'', ''items'', ''maxItems'', ''maxLength'', ''minItems'',
      ''minLength'', ''type'', ''uniqueItems'']"
| "RelevantKeys TagBoolean = [''type'']"
| "RelevantKeys TagConst = [''const'', ''type'']"
| "RelevantKeys TagEnum = [''enum'', ''type'']"
| "RelevantKeys TagInteger = [''maximum'', ''minimum'', ''type'']"
| "RelevantKeys TagNull = [''type'']"
| "RelevantKeys TagNumber = [''maximum'', ''minimum'', ''type'']"
| "RelevantKeys TagObject =
     [''additionalProperties'', ''anyOf'', ''oneOf'', ''properties'', ''required'', ''type'']"
| "RelevantKeys TagRecord = [''additionalProperties'', ''patternProperties'', ''type'']"
| "RelevantKeys TagReference = [''$ref'']"
| "RelevantKeys TagString = [''format'', ''maxLength'', ''minLength'', ''pattern'', ''type'']"
| "RelevantKeys TagUnion = [''anyOf'', ''oneOf'']"
| "RelevantKeys TagUnknown = []"

definition IgnorableKeys :: "string list" where
  "IgnorableKeys = [''dependencies'']"

definition SchemaDocumentationKeys :: "string list" where
  "SchemaDocumentationKeys =
     [''$comment'', ''default'', ''description'', ''examples'', ''exclusiveMaximum'',
      ''exclusiveMinimum'', ''format'', ''insertionOrder'', ''maximum'', ''maxItems'',
      ''maxLength'', ''maxProperties'', ''minimum'', ''minItems'', ''minLength'',
      ''minProperties'', ''multipleOf'', ''pattern'', ''relationshipRef'', ''title'',
      ''uniqueItems'']"

text \<open>
  The private fields of a \<open>ResourceBuilder\<close>. \<open>relevantKeys\<close> is the module's table
  \<^verbatim>\<open>RelevantKeys\<close>: \<^verbatim>\<open>#warnExtraKeys\<close> appends to its arrays in place, so the table is state
  that outlives a builder, and a builder starts from the table as it finds it.
\<close>

record Builder =
  documenter :: ResourceDocumenter
  ignoreExtraKeyLocations :: "string list"
  problems :: "Warning list option"
  relevantKeys :: "TypeTag \<Rightarrow> string list"
  resourceSchema :: JsonValue
  root :: ResourceType

text \<open>\<^verbatim>\<open>resourceSchema.typeName\<close>, a string by the type \<open>ResourceTypeSchema\<close>.\<close>

definition typeName_of :: "JsonValue \<Rightarrow> string" where
  "typeName_of schema =
     (case get_prop schema ''typeName'' of Some (Prim (PStr s)) \<Rightarrow> s | _ \<Rightarrow> ''undefined'')"

text \<open>
  The constructor. It stores the schema and the documenter and creates the root; it does
  not store \<^verbatim>\<open>options.problems\<close>, so \<^verbatim>\<open>#problems\<close> stays \<^verbatim>\<open>undefined\<close>.
\<close>

definition new_ResourceBuilder ::
  "(TypeTag \<Rightarrow> string list) \<Rightarrow> JsonValue \<Rightarrow> ResourceBuilderOptions \<Rightarrow> Builder" where
  "new_ResourceBuilder table schema options =
     \<lparr>documenter =
        (case opt_documenter options of
           Some d \<Rightarrow> d
         | None \<Rightarrow> \<lparr>getAttributeDocs = None, getDefinitionDocs = None, getResourceDocs = None\<rparr>),
      ignoreExtraKeyLocations = [],
      problems = None,
      relevantKeys = table,
      resourceSchema = schema,
      root =
        \<lparr>typeName = typeName_of schema, attributes = None, definitions = [],
         properties = \<lparr>def_documentation = None, def_type = UnknownType ''/''\<rparr>\<rparr>\<rparr>"

text \<open>\<^verbatim>\<open>#warn\<close>: \<^verbatim>\<open>this.#problems?.warn(fullRef, format, ...args)\<close>.\<close>

definition warn :: "Builder \<Rightarrow> string \<Rightarrow> string \<Rightarrow> JsonValue list \<Rightarrow> Builder" where
  "warn st loc fmt args =
     (case problems st of
        None \<Rightarrow> st
      | Some calls \<Rightarrow>
          st\<lparr>problems :=
               Some (calls @ [\<lparr>w_location = typeName_of (resourceSchema st) @ loc,
                               w_format = fmt, w_args = args\<rparr>])\<rparr>)"

definition and_then :: "error + 'a \<Rightarrow> ('a \<Rightarrow> error + 'b) \<Rightarrow> error + 'b" where
  "and_then m f = (case m of Inl e \<Rightarrow> Inl e | Inr x \<Rightarrow> f x)"

text \<open>A loop over a list whose body may throw and changes the state.\<close>

fun map_action :: "('a \<Rightarrow> 's \<Rightarrow> error + ('b \<times> 's)) \<Rightarrow> 'a list \<Rightarrow> 's \<Rightarrow> error + ('b list \<times> 's)" where
  "map_action f [] s = Inr ([], s)"
| "map_action f (x # xs) s =
     and_then (f x s) (\<lambda>(y, s').
     and_then (map_action f xs s') (\<lambda>(ys, s''). Inr (y # ys, s'')))"

text \<open>A \<^verbatim>\<open>map\<close> whose callback may throw, and a loop that only changes the state.\<close>

fun map_result :: "('a \<Rightarrow> error + 'b) \<Rightarrow> 'a list \<Rightarrow> error + 'b list" where
  "map_result f [] = Inr []"
| "map_result f (x # xs) =
     and_then (f x) (\<lambda>y. and_then (map_result f xs) (\<lambda>ys. Inr (y # ys)))"

fun fold_result :: "('a \<Rightarrow> 's \<Rightarrow> error + 's) \<Rightarrow> 'a list \<Rightarrow> 's \<Rightarrow> error + 's" where
  "fold_result f [] s = Inr s"
| "fold_result f (x # xs) s = and_then (f x s) (fold_result f xs)"

subsection \<open>\<^verbatim>\<open>#mergeSchemas\<close> and \<^verbatim>\<open>#mergeAllOf\<close>\<close>

definition string_array :: "string list \<Rightarrow> JsonValue" where
  "string_array xs = Arr (map (\<lambda>x. Prim (PStr x)) xs)"

definition mergeSchemas ::
  "Builder \<Rightarrow> JsonValue list \<Rightarrow> MergeObjectsOptions \<Rightarrow> string
   \<Rightarrow> error + ((string \<times> JsonValue) list \<times> Builder)" where
  "mergeSchemas st objects options loc =
     and_then (mergeObjects objects options) (\<lambda>r.
       Inr (merged_value r,
            (case conflicts r of
               Some cs \<Rightarrow>
                 if length cs \<noteq> 0
                 then warn st loc ''found conflicts while merging schemas for keys''
                        [string_array cs]
                 else st
             | None \<Rightarrow> st)))"

definition allOf_options :: MergeObjectsOptions where
  "allOf_options =
     \<lparr>mergeArrayValues = Some (Inr [''required'']), overwriteValues = None,
      uniqueArrayValues = Some True\<rparr>"

text \<open>
  \<^verbatim>\<open>const { allOf, ...rest } = schema; return this.#mergeSchemas([rest, ...allOf], ...)\<close>.
  Reading \<^verbatim>\<open>schema.allOf\<close> throws when the schema is \<^verbatim>\<open>null\<close>.
\<close>

definition mergeAllOf :: "Builder \<Rightarrow> JsonValue \<Rightarrow> string \<Rightarrow> error + (JsonValue \<times> Builder)" where
  "mergeAllOf st schema loc =
     (if is_null schema then Inl (TypeError ''Cannot read properties of null'')
      else
        (case get_prop schema ''allOf'' of
           Some allOf \<Rightarrow>
             and_then (spread allOf) (\<lambda>siblings.
             and_then
               (mergeSchemas st (Obj (obj_delete (own_entries schema) ''allOf'') # siblings)
                  allOf_options loc)
               (\<lambda>(v, st'). Inr (Obj v, st')))
         | None \<Rightarrow> Inr (schema, st)))"

text \<open>
  The order in which \<open>mergeObjectsWith\<close> meets the objects: the one it starts from, then the
  others.
\<close>

definition merge_order :: "'a list \<Rightarrow> 'a list" where
  "merge_order objects = (if objects = [] then [] else last objects # butlast objects)"



text \<open>A builder as \<^verbatim>\<open>generate.ts\<close> creates it, for a reporter that has received no call.\<close>

definition builder_for :: "JsonValue \<Rightarrow> Builder" where
  "builder_for schema =
     new_ResourceBuilder RelevantKeys schema \<lparr>opt_documenter = None, opt_problems = Some []\<rparr>"

subsection \<open>Strings and paths\<close>

definition starts_with :: "string \<Rightarrow> string \<Rightarrow> bool" where
  "starts_with s prefix = (take (length prefix) s = prefix)"

text \<open>\<^verbatim>\<open>s.split(c)\<close> for a separator of one character, and \<^verbatim>\<open>xs.join(sep)\<close>.\<close>

fun split_on :: "char \<Rightarrow> string \<Rightarrow> string list" where
  "split_on c [] = [[]]"
| "split_on c (x # xs) =
     (if x = c then [] # split_on c xs
      else (case split_on c xs of w # ws \<Rightarrow> (x # w) # ws | [] \<Rightarrow> [[x]]))"

fun join_with :: "string \<Rightarrow> string list \<Rightarrow> string" where
  "join_with sep [] = []"
| "join_with sep [x] = x"
| "join_with sep (x # y # ys) = x @ sep @ join_with sep (y # ys)"

text \<open>
  \<^verbatim>\<open>posix.join\<close>, \<^verbatim>\<open>posix.dirname\<close> and \<^verbatim>\<open>posix.basename\<close> of \<^verbatim>\<open>node:path\<close>, from their
  documented behaviour. \<open>normalize_segments\<close> resolves \<^verbatim>\<open>.\<close> and \<^verbatim>\<open>..\<close> and drops empty
  segments.
\<close>

definition normalize_step :: "bool \<Rightarrow> string list \<Rightarrow> string \<Rightarrow> string list" where
  "normalize_step allowAboveRoot res seg =
     (if seg = [] \<or> seg = ''.'' then res
      else if seg = ''..'' then
        (if res \<noteq> [] \<and> last res \<noteq> ''..'' then butlast res
         else if allowAboveRoot then res @ [''..''] else res)
      else res @ [seg])"

definition posix_normalize :: "string \<Rightarrow> string" where
  "posix_normalize path =
     (if path = [] then ''.''
      else
        (let isAbsolute = (hd path = CHR ''/'');
             trailingSeparator = (last path = CHR ''/'');
             p = join_with ''/'' (foldl (normalize_step (\<not> isAbsolute)) [] (split_on CHR ''/'' path))
         in if p = [] then (if isAbsolute then ''/'' else if trailingSeparator then ''./'' else ''.'')
            else (if isAbsolute then ''/'' else []) @ p @ (if trailingSeparator then ''/'' else [])))"

definition posix_join :: "string list \<Rightarrow> string" where
  "posix_join args =
     (let given = filter (\<lambda>a. a \<noteq> []) args
      in if given = [] then ''.'' else posix_normalize (join_with ''/'' given))"

definition posix_dirname :: "string \<Rightarrow> string" where
  "posix_dirname path =
     (if path = [] then ''.''
      else
        (let hasRoot = (hd path = CHR ''/'');
             lead = dropWhile (\<lambda>c. c \<noteq> CHR ''/'')
                        (dropWhile (\<lambda>c. c = CHR ''/'') (rev (tl path)))
         in if lead = [] then (if hasRoot then ''/'' else ''.'')
            else if hasRoot \<and> length lead = 1 then ''//''
            else take (length lead) path))"

definition posix_basename :: "string \<Rightarrow> string" where
  "posix_basename path =
     rev (takeWhile (\<lambda>c. c \<noteq> CHR ''/'') (dropWhile (\<lambda>c. c = CHR ''/'') (rev path)))"

text \<open>\<^verbatim>\<open>/^#\/definitions\/([^/]+)$/.exec(ref)\<close>: the captured name, if the string matches.\<close>

definition definition_ref_name :: "string \<Rightarrow> string option" where
  "definition_ref_name ref =
     (if starts_with ref ''#/definitions/''
         \<and> drop 14 ref \<noteq> [] \<and> CHR ''/'' \<notin> set (drop 14 ref)
      then Some (drop 14 ref) else None)"

text \<open>
  \<open>parsePath\<close>: the groups \<^verbatim>\<open>definitionName\<close> and \<^verbatim>\<open>propertyName\<close> of the regular expression
  \<^verbatim>\<open>^(?:\/definitions\/([^/]+)(?:\/(?:allOf|anyOf|oneOf)\/\d+)*)?(?:\/properties\/([^/]+))?$\<close>,
  read on the segments of the path.
\<close>

definition is_digit_char :: "char \<Rightarrow> bool" where
  "is_digit_char c = (let n = (of_char c :: nat) in 48 \<le> n \<and> n \<le> 57)"

fun drop_combinators :: "string list \<Rightarrow> string list" where
  "drop_combinators (k # i # rest) =
     (if (k = ''allOf'' \<or> k = ''anyOf'' \<or> k = ''oneOf'') \<and> i \<noteq> [] \<and> list_all is_digit_char i
      then drop_combinators rest else k # i # rest)"
| "drop_combinators rest = rest"

definition property_group :: "string list \<Rightarrow> string option option" where
  "property_group segs =
     (case segs of
        [] \<Rightarrow> Some None
      | [k, p] \<Rightarrow> if k = ''properties'' \<and> p \<noteq> [] then Some (Some p) else None
      | _ \<Rightarrow> None)"

definition parsePath :: "string \<Rightarrow> string option \<times> string option" where
  "parsePath path =
     (case split_on CHR ''/'' path of
        [] # ''definitions'' # nm # rest \<Rightarrow>
          (if nm \<noteq> [] then
             (case property_group (drop_combinators rest) of
                Some p \<Rightarrow> (Some nm, p)
              | None \<Rightarrow> (None, None))
           else (None, None))
      | [] # rest \<Rightarrow>
          (case property_group rest of
             Some p \<Rightarrow> (None, p)
           | None \<Rightarrow> (None, None))
      | _ \<Rightarrow> (None, None))"

text \<open>\<^verbatim>\<open>encodeURIComponent\<close>: every byte but the unreserved ones is written \<^verbatim>\<open>%XX\<close>.\<close>

definition hex_digit :: "nat \<Rightarrow> char" where
  "hex_digit n = (if n < 10 then char_of (48 + n) else char_of (55 + n))"

definition is_unreserved :: "char \<Rightarrow> bool" where
  "is_unreserved c =
     (let n = (of_char c :: nat)
      in (65 \<le> n \<and> n \<le> 90) \<or> (97 \<le> n \<and> n \<le> 122) \<or> (48 \<le> n \<and> n \<le> 57)
         \<or> c \<in> set ''-_.!~*'' \<or> n = 39 \<or> c \<in> set ''()'')"

definition encodeURIComponent :: "string \<Rightarrow> string" where
  "encodeURIComponent s =
     concat (map (\<lambda>c. if is_unreserved c then [c]
                       else [CHR ''%'', hex_digit (of_char c div 16), hex_digit (of_char c mod 16)]) s)"

text \<open>\<^verbatim>\<open>Array.prototype.sort\<close> with a comparator: a stable sort.\<close>

fun insert_sorted :: "('a \<Rightarrow> 'a \<Rightarrow> int) \<Rightarrow> 'a \<Rightarrow> 'a list \<Rightarrow> 'a list" where
  "insert_sorted cmp x [] = [x]"
| "insert_sorted cmp x (y # ys) =
     (if cmp x y \<le> 0 then x # y # ys else y # insert_sorted cmp x ys)"

definition stable_sort :: "('a \<Rightarrow> 'a \<Rightarrow> int) \<Rightarrow> 'a list \<Rightarrow> 'a list" where
  "stable_sort cmp xs = foldr (insert_sorted cmp) xs []"

subsection \<open>\<^verbatim>\<open>#warnExtraKeys\<close>\<close>

fun tag_name :: "TypeTag \<Rightarrow> string" where
  "tag_name TagAny = ''any''"
| "tag_name TagArray = ''array''"
| "tag_name TagBoolean = ''boolean''"
| "tag_name TagConst = ''const''"
| "tag_name TagEnum = ''enum''"
| "tag_name TagInteger = ''integer''"
| "tag_name TagNull = ''null''"
| "tag_name TagNumber = ''number''"
| "tag_name TagObject = ''object''"
| "tag_name TagRecord = ''record''"
| "tag_name TagReference = ''reference''"
| "tag_name TagString = ''string''"
| "tag_name TagUnion = ''union''"
| "tag_name TagUnknown = ''unknown''"

text \<open>\<^verbatim>\<open>x?.length\<close>.\<close>

fun js_length :: "JsonValue option \<Rightarrow> JsonValue option" where
  "js_length (Some (Arr xs)) = Some (Prim (PNum (int (length xs))))"
| "js_length (Some (Prim (PStr s))) = Some (Prim (PNum (int (length s))))"
| "js_length (Some (Obj kvs)) = map_of kvs ''length''"
| "js_length _ = None"

text \<open>
  The kind of type is one name or, from \<open>walkMultiType\<close>, a list of names. For one name,
  \<^verbatim>\<open>allowed\<close> is the array of the table itself, and what is pushed to it stays in the table.
\<close>

definition warnExtraKeys :: "Builder \<Rightarrow> JsonValue \<Rightarrow> TypeTag + TypeTag list \<Rightarrow> string \<Rightarrow> Builder" where
  "warnExtraKeys st schema ty loc =
     (if loc \<in> set (ignoreExtraKeyLocations st) then st
      else
        (let allowed =
               (case ty of
                  Inr tags \<Rightarrow> concat (map (relevantKeys st) tags)
                | Inl tag \<Rightarrow> relevantKeys st tag)
               @ IgnorableKeys @ SchemaDocumentationKeys
               @ (if ty = Inl TagReference then [''type''] else [])
               @ (if get_prop schema ''additionalProperties'' = Some (Prim (PBool False))
                  then [''additionalProperties''] else [])
               @ (if ty = Inl TagRecord
                     \<and> js_length (get_prop schema ''required'') = Some (Prim (PNum 0))
                  then [''required''] else []);
             st1 =
               (case ty of
                  Inl tag \<Rightarrow> st\<lparr>relevantKeys := (relevantKeys st)(tag := allowed)\<rparr>
                | Inr _ \<Rightarrow> st);
             extraKeys = filter (\<lambda>x. x \<notin> set allowed) (map fst (own_entries schema))
         in if length extraKeys > 0
            then warn st1 loc ''ignored extra keys %O for type %O''
                   [string_array extraKeys,
                    (case ty of Inl tag \<Rightarrow> Prim (PStr (tag_name tag))
                     | Inr tags \<Rightarrow> string_array (map tag_name tags)),
                    schema]
            else st1))"

subsection \<open>\<^verbatim>\<open>#extractDocumentation\<close>\<close>

record ExtractDocumentationResult =
  ed_documentation :: "TypeDocumentation option"
  ed_type :: "(string \<times> JsonValue) list option"

text \<open>The renaming of the string length bounds of an array schema.\<close>

definition rename_member ::
  "string \<Rightarrow> string \<Rightarrow> (string \<times> JsonValue) list \<Rightarrow> (string \<times> JsonValue) list" where
  "rename_member old new d =
     (case map_of d old of Some v \<Rightarrow> obj_delete (obj_set d new v) old | None \<Rightarrow> d)"

text \<open>
  The treatment of \<^verbatim>\<open>type.anyOf\<close> and of \<^verbatim>\<open>type.oneOf\<close>: when no branch contributes a type,
  the documentation of the branches joins \<^verbatim>\<open>union\<close> and the member is deleted. \<open>extract\<close> is
  the recursive call.
\<close>

definition absorb_branches ::
  "(Builder \<Rightarrow> JsonValue \<Rightarrow> string \<Rightarrow> error + (ExtractDocumentationResult \<times> Builder))
   \<Rightarrow> Builder \<Rightarrow> string \<Rightarrow> (string \<times> JsonValue) list \<Rightarrow> TypeDocumentation list \<Rightarrow> string
   \<Rightarrow> error + (((string \<times> JsonValue) list \<times> TypeDocumentation list) \<times> Builder)" where
  "absorb_branches extract st key ty unionDocs loc =
     (case map_of ty key of
        Some branches \<Rightarrow>
          if truthy branches then
            and_then (array_elements branches) (\<lambda>xs.
            and_then (map_action (\<lambda>x s. extract s x loc) xs st) (\<lambda>(childResults, st').
              if \<not> list_ex (\<lambda>x. ed_type x \<noteq> None) childResults
              then Inr ((obj_delete ty key, unionDocs @ List.map_filter ed_documentation childResults), st')
              else Inr ((ty, unionDocs), st')))
          else Inr ((ty, unionDocs), st)
      | None \<Rightarrow> Inr ((ty, unionDocs), st))"

definition documentation_options :: MergeObjectsOptions where
  "documentation_options =
     \<lparr>mergeArrayValues = Some (Inr [''examples'', ''format'', ''pattern'', ''relationshipRef'']),
      overwriteValues = None, uniqueArrayValues = None\<rparr>"

definition extra_docs :: "Builder \<Rightarrow> string \<Rightarrow> TypeDocumentation option" where
  "extra_docs st loc =
     (case parsePath loc of
        (Some definitionName, propertyName) \<Rightarrow>
          (case getDefinitionDocs (documenter st) of
             Some f \<Rightarrow> f (typeName_of (resourceSchema st)) definitionName propertyName
           | None \<Rightarrow> None)
      | (None, propertyName) \<Rightarrow>
          if loc = ''/'' \<or> propertyName \<noteq> None then
            (case getResourceDocs (documenter st) of
               Some f \<Rightarrow> f (typeName_of (resourceSchema st)) propertyName
             | None \<Rightarrow> None)
          else None)"

definition extractDocumentation_body ::
  "(Builder \<Rightarrow> JsonValue \<Rightarrow> string \<Rightarrow> error + (ExtractDocumentationResult \<times> Builder))
   \<Rightarrow> Builder \<Rightarrow> JsonValue \<Rightarrow> string \<Rightarrow> error + (ExtractDocumentationResult \<times> Builder)" where
  "extractDocumentation_body extract st schema loc =
     and_then (mergeAllOf st schema loc) (\<lambda>(merged, st1).
       (case splitPick merged SchemaDocumentationKeys of (documentation0, type0) \<Rightarrow>
          (let documentation1 =
                 (if map_of type0 ''type'' = Some (Prim (PStr ''array''))
                  then rename_member ''minLength'' ''minItems''
                         (rename_member ''maxLength'' ''maxItems'' documentation0)
                  else documentation0)
           in
           and_then (absorb_branches extract st1 ''anyOf'' type0 [] loc) (\<lambda>((type1, union1), st2).
           and_then (absorb_branches extract st2 ''oneOf'' type1 union1 loc) (\<lambda>((type2, union2), st3).
           and_then (mergeSchemas st3 (map Obj (documentation1 # union2)) documentation_options loc)
             (\<lambda>(mergedDocs, st4).
                (let docs = (case extra_docs st4 loc of
                               Some extraDocs \<Rightarrow> assign mergedDocs [extraDocs]
                             | None \<Rightarrow> mergedDocs)
                 in Inr (\<lparr>ed_documentation = (if length docs > 0 then Some docs else None),
                          ed_type = (if length type2 > 0 then Some type2 else None)\<rparr>, st4))))))))"

primrec extractDocumentation ::
  "nat \<Rightarrow> Builder \<Rightarrow> JsonValue \<Rightarrow> string \<Rightarrow> error + (ExtractDocumentationResult \<times> Builder)" where
  "extractDocumentation 0 = (\<lambda>st schema loc. Inl OutOfFuel)"
| "extractDocumentation (Suc n) = extractDocumentation_body (extractDocumentation n)"

text \<open>
  \<^verbatim>\<open>const { type = {}, documentation = {} } = this.#extractDocumentation(...)\<close>, as
  \<open>walkArrayType\<close>, \<open>walkDefinition\<close> and \<open>walkProperty\<close> read the result.
\<close>

definition with_defaults :: "ExtractDocumentationResult \<Rightarrow> JsonValue \<times> TypeDocumentation" where
  "with_defaults r =
     (Obj (case ed_type r of Some t \<Rightarrow> t | None \<Rightarrow> []),
      (case ed_documentation r of Some d \<Rightarrow> d | None \<Rightarrow> []))"

subsection \<open>The walkers of the kinds of schema\<close>

definition schema_type :: "JsonValue \<Rightarrow> JsonValue option" where
  "schema_type schema = get_prop schema ''type''"

definition type_is :: "JsonValue \<Rightarrow> string \<Rightarrow> bool" where
  "type_is schema nm = (schema_type schema = Some (Prim (PStr nm)))"

definition isObjectSchema :: "JsonValue \<Rightarrow> bool" where
  "isObjectSchema schema =
     ((type_is schema ''object'' \<or> schema_type schema = None)
      \<and> get_prop schema ''properties'' \<noteq> None)"

definition isRecordSchema :: "JsonValue \<Rightarrow> bool" where
  "isRecordSchema schema =
     ((type_is schema ''object'' \<and> get_prop schema ''properties'' = None)
      \<or> (schema_type schema = None \<and> get_prop schema ''patternProperties'' \<noteq> None))"

definition isStringSchema :: "JsonValue \<Rightarrow> bool" where
  "isStringSchema schema =
     (type_is schema ''string''
      \<or> (schema_type schema = None
          \<and> (get_prop schema ''format'' \<noteq> None \<or> get_prop schema ''pattern'' \<noteq> None)))"

definition walkBooleanType :: "Builder \<Rightarrow> JsonValue \<Rightarrow> string \<Rightarrow> error + (Type \<times> Builder)" where
  "walkBooleanType st schema loc =
     (if \<not> type_is schema ''boolean'' then Inl (AssertionError ''expected boolean schema'')
      else Inr (PrimitiveType Boolean loc, warnExtraKeys st schema (Inl TagBoolean) loc))"

definition walkConstType :: "Builder \<Rightarrow> JsonValue \<Rightarrow> string \<Rightarrow> error + (Type \<times> Builder)" where
  "walkConstType st schema loc =
     (case get_prop schema ''const'' of
        Some (Prim v) \<Rightarrow> Inr (ConstType loc v, warnExtraKeys st schema (Inl TagConst) loc)
      | _ \<Rightarrow> Inl (AssertionError ''expected const schema with primitive value''))"

fun primitive_of :: "JsonValue \<Rightarrow> JsonPrimitive option" where
  "primitive_of (Prim v) = Some v"
| "primitive_of _ = None"

definition walkEnumType :: "Builder \<Rightarrow> JsonValue \<Rightarrow> string \<Rightarrow> error + (Type \<times> Builder)" where
  "walkEnumType st schema loc =
     (case get_prop schema ''enum'' of
        Some (Arr vs) \<Rightarrow>
          if list_all (\<lambda>v. primitive_of v \<noteq> None) vs
          then Inr (EnumType loc (List.map_filter primitive_of vs),
                    warnExtraKeys st schema (Inl TagEnum) loc)
          else Inl (AssertionError ''expected enum schema with primitive values'')
      | Some (Prim PNull) \<Rightarrow> Inl (AssertionError ''expected enum schema with primitive values'')
      | None \<Rightarrow> Inl (AssertionError ''expected enum schema with primitive values'')
      | _ \<Rightarrow> Inl (TypeError ''schema.enum?.every is not a function''))"

definition walkNullType :: "Builder \<Rightarrow> JsonValue \<Rightarrow> string \<Rightarrow> error + (Type \<times> Builder)" where
  "walkNullType st schema loc =
     (if \<not> type_is schema ''null'' then Inl (AssertionError ''expected null schema'')
      else Inr (PrimitiveType Null loc, warnExtraKeys st schema (Inl TagNull) loc))"

definition walkNumberType :: "Builder \<Rightarrow> JsonValue \<Rightarrow> string \<Rightarrow> error + (Type \<times> Builder)" where
  "walkNumberType st schema loc =
     (if type_is schema ''integer''
      then Inr (PrimitiveType Integer loc, warnExtraKeys st schema (Inl TagInteger) loc)
      else if type_is schema ''number''
      then Inr (PrimitiveType Number loc, warnExtraKeys st schema (Inl TagNumber) loc)
      else Inl (AssertionError ''expected integer or number schema''))"

definition walkStringType :: "Builder \<Rightarrow> JsonValue \<Rightarrow> string \<Rightarrow> error + (Type \<times> Builder)" where
  "walkStringType st schema loc =
     (if \<not> (type_is schema ''string'' \<or> schema_type schema = None)
      then Inl (AssertionError ''expected a string schema'')
      else Inr (PrimitiveType String loc, warnExtraKeys st schema (Inl TagString) loc))"

text \<open>
  \<open>walkArrayType\<close>, \<open>walkDefinition\<close> and \<open>walkProperty\<close>, given \<^verbatim>\<open>this.#walkType\<close> as \<open>walk\<close>
  and \<^verbatim>\<open>this.#extractDocumentation\<close> as \<open>extract\<close>.
\<close>

definition walkArrayType ::
  "(Builder \<Rightarrow> JsonValue \<Rightarrow> string \<Rightarrow> error + (Type \<times> Builder))
   \<Rightarrow> (Builder \<Rightarrow> JsonValue \<Rightarrow> string \<Rightarrow> error + (ExtractDocumentationResult \<times> Builder))
   \<Rightarrow> Builder \<Rightarrow> JsonValue \<Rightarrow> string \<Rightarrow> error + (Type \<times> Builder)" where
  "walkArrayType walk extract st schema loc =
     (if \<not> type_is schema ''array'' then Inl (AssertionError ''expected array schema'')
      else
        (let st1 = warnExtraKeys st schema (Inl TagArray) loc;
             itemsLocation = posix_join [loc, ''items'']
         in
         (case get_prop schema ''items'' of
            Some its \<Rightarrow>
              if truthy its then
                and_then (extract st1 its itemsLocation) (\<lambda>(r, st2).
                  (case with_defaults r of (ty, docs) \<Rightarrow>
                     and_then (walk st2 ty itemsLocation) (\<lambda>(t, st3).
                       Inr (ArrayType loc (ItemInfo (Some docs) t), st3))))
              else Inr (ArrayType loc (ItemInfo None (AnyType itemsLocation)), st1)
          | None \<Rightarrow> Inr (ArrayType loc (ItemInfo None (AnyType itemsLocation)), st1))))"

definition walkDefinition ::
  "(Builder \<Rightarrow> JsonValue \<Rightarrow> string \<Rightarrow> error + (Type \<times> Builder))
   \<Rightarrow> (Builder \<Rightarrow> JsonValue \<Rightarrow> string \<Rightarrow> error + (ExtractDocumentationResult \<times> Builder))
   \<Rightarrow> Builder \<Rightarrow> JsonValue \<Rightarrow> string \<Rightarrow> error + (TypeDefinition \<times> Builder)" where
  "walkDefinition walk extract st schema loc =
     and_then (extract st schema loc) (\<lambda>(r, st1).
       (case with_defaults r of (ty, docs) \<Rightarrow>
          and_then (walk st1 ty loc) (\<lambda>(t, st2).
            Inr (\<lparr>def_documentation = Some docs, def_type = t\<rparr>, st2))))"

definition walkProperty ::
  "(Builder \<Rightarrow> JsonValue \<Rightarrow> string \<Rightarrow> error + (Type \<times> Builder))
   \<Rightarrow> (Builder \<Rightarrow> JsonValue \<Rightarrow> string \<Rightarrow> error + (ExtractDocumentationResult \<times> Builder))
   \<Rightarrow> Builder \<Rightarrow> JsonValue \<Rightarrow> string \<Rightarrow> error + (PropertyInfo \<times> Builder)" where
  "walkProperty walk extract st propertySchema loc =
     and_then (extract st propertySchema loc) (\<lambda>(r, st1).
       (case with_defaults r of (ty, docs) \<Rightarrow>
          and_then (walk st1 ty loc) (\<lambda>(t, st2).
            Inr (PropertyInfo (Some docs) None None t, st2))))"

text \<open>\<^verbatim>\<open>{ ...schema, type }\<close>.\<close>

definition with_type :: "JsonValue \<Rightarrow> JsonValue \<Rightarrow> JsonValue" where
  "with_type schema ty = Obj (obj_set (own_entries schema) ''type'' ty)"

text \<open>\<^verbatim>\<open>set.add(x)\<close> and \<^verbatim>\<open>set.delete(x)\<close> on a set of strings.\<close>

definition set_add :: "string list \<Rightarrow> string \<Rightarrow> string list" where
  "set_add xs x = (if x \<in> set xs then xs else xs @ [x])"

definition set_delete :: "string list \<Rightarrow> string \<Rightarrow> string list" where
  "set_delete xs x = filter (\<lambda>y. y \<noteq> x) xs"

definition walkMultiType ::
  "(Builder \<Rightarrow> JsonValue \<Rightarrow> string \<Rightarrow> error + (Type \<times> Builder))
   \<Rightarrow> Builder \<Rightarrow> JsonValue \<Rightarrow> string \<Rightarrow> error + (Type \<times> Builder)" where
  "walkMultiType walk st schema loc =
     (case schema_type schema of
        Some (Arr tys) \<Rightarrow>
          if length tys = 0 then Inl (AssertionError ''expected a non-empty array for type'')
          else if length tys = 1 then walk st (with_type schema (tys ! 0)) loc
          else
            and_then
              (map_action (\<lambda>ty s. walk s (with_type schema ty) loc) tys
                 (st\<lparr>ignoreExtraKeyLocations := set_add (ignoreExtraKeyLocations st) loc\<rparr>))
              (\<lambda>(its, st1).
                 (let st2 = st1\<lparr>ignoreExtraKeyLocations :=
                                  set_delete (ignoreExtraKeyLocations st1) loc\<rparr>;
                      st3 = warnExtraKeys st2 schema (Inr (map type_tag its)) loc
                  in Inr (simplifyUnionType loc its, st3)))
      | _ \<Rightarrow> Inl (AssertionError ''expected a non-empty array for type''))"

definition walkRecordType ::
  "(Builder \<Rightarrow> JsonValue \<Rightarrow> string \<Rightarrow> error + (Type \<times> Builder))
   \<Rightarrow> Builder \<Rightarrow> JsonValue \<Rightarrow> string \<Rightarrow> error + (Type \<times> Builder)" where
  "walkRecordType walk st schema loc =
     (if \<not> isRecordSchema schema then Inl (AssertionError ''expected record type'')
      else
        (let st1 = warnExtraKeys st schema (Inl TagRecord) loc in
         if (case get_prop schema ''additionalProperties'' of Some a \<Rightarrow> truthy a | None \<Rightarrow> False)
         then Inl (AssertionError ''unexpected additionalProperties'')
         else
           (let propLocation = posix_join [loc, ''patternProperties''] in
            (case get_prop schema ''patternProperties'' of
               Some pp \<Rightarrow>
                 if truthy pp then
                   and_then
                     (map_action
                        (\<lambda>(pattern, patternSchema) s.
                           walk s patternSchema (posix_join [propLocation, encodeURIComponent pattern]))
                        (own_entries pp) st1)
                     (\<lambda>(types, st2).
                        Inr (RecordType loc (simplifyUnionType propLocation types), st2))
                 else Inr (RecordType loc (AnyType propLocation), st1)
             | None \<Rightarrow> Inr (RecordType loc (AnyType propLocation), st1)))))"

text \<open>
  \<open>walkRefType\<close>. \<open>resolve_pointer\<close> is its loop over the parts of the reference, with
  \<^verbatim>\<open>part in resolved\<close> as the test: \<open>Inr None\<close> when a part is missing. The operator throws
  on a primitive value; it also finds the built-in members of objects and arrays.
\<close>

definition object_prototype_names :: "string list" where
  "object_prototype_names =
     [''constructor'', ''__defineGetter__'', ''__defineSetter__'', ''hasOwnProperty'',
      ''__lookupGetter__'', ''__lookupSetter__'', ''isPrototypeOf'', ''propertyIsEnumerable'',
      ''toString'', ''valueOf'', ''__proto__'', ''toLocaleString'']"

fun resolve_pointer :: "JsonValue \<Rightarrow> string list \<Rightarrow> error + JsonValue option" where
  "resolve_pointer resolved [] = Inr (Some resolved)"
| "resolve_pointer (Obj kvs) (part # parts) =
     (case map_of kvs part of
        Some v \<Rightarrow> resolve_pointer v parts
      | None \<Rightarrow>
          if part \<in> set object_prototype_names then Inl (Unmodelled ''a member of Object.prototype'')
          else Inr None)"
| "resolve_pointer (Arr xs) (part # parts) =
     (case map_of (indexed_from 0 xs) part of
        Some v \<Rightarrow> resolve_pointer v parts
      | None \<Rightarrow> Inl (Unmodelled ''a member of an array that is not an element''))"
| "resolve_pointer (Prim v) (part # parts) =
     Inl (TypeError ''Cannot use the in operator on a primitive value'')"

definition walkRefType ::
  "(Builder \<Rightarrow> JsonValue \<Rightarrow> string \<Rightarrow> error + (Type \<times> Builder))
   \<Rightarrow> Builder \<Rightarrow> JsonValue \<Rightarrow> string \<Rightarrow> error + (Type \<times> Builder)" where
  "walkRefType walk st schema loc =
     (case get_prop schema ''$ref'' of
        Some (Prim (PStr ref)) \<Rightarrow>
          if ref = [] then Inl (AssertionError ''expected a ref schema'')
          else
            (let st1 = warnExtraKeys st schema (Inl TagReference) loc in
             (case definition_ref_name ref of
                Some nm \<Rightarrow> Inr (ReferenceType loc (Name nm), st1)
              | None \<Rightarrow>
                  if \<not> starts_with ref ''#/''
                  then Inr (UnknownType loc,
                            warn st1 loc ''invalid reference'' [Prim (PStr ref)])
                  else
                    and_then (resolve_pointer (resourceSchema st1) (split_on CHR ''/'' (drop 2 ref)))
                      (\<lambda>found.
                         (case found of
                            None \<Rightarrow>
                              Inr (UnknownType loc,
                                   warn st1 loc ''invalid reference'' [Prim (PStr ref)])
                          | Some resolved \<Rightarrow> walk st1 resolved (drop 1 ref)))))
      | Some v \<Rightarrow>
          if truthy v then Inl (Unmodelled ''a reference that is not a string'')
          else Inl (AssertionError ''expected a ref schema'')
      | None \<Rightarrow> Inl (AssertionError ''expected a ref schema''))"

text \<open>\<open>walkUnion\<close>; the branches are numbered in their locations.\<close>

definition walk_branches ::
  "(Builder \<Rightarrow> JsonValue \<Rightarrow> string \<Rightarrow> error + (Type \<times> Builder))
   \<Rightarrow> Builder \<Rightarrow> JsonValue \<Rightarrow> string \<Rightarrow> string \<Rightarrow> error + (Type list \<times> Builder)" where
  "walk_branches walk st schema key loc =
     (case get_prop schema key of
        Some branches \<Rightarrow>
          if truthy branches then
            and_then (array_elements branches) (\<lambda>xs.
              map_action (\<lambda>(i, x) s. walk s x (posix_join [loc, key, i])) (indexed_from 0 xs) st)
          else Inr ([], st)
      | None \<Rightarrow> Inr ([], st))"

definition walkUnion ::
  "(Builder \<Rightarrow> JsonValue \<Rightarrow> string \<Rightarrow> error + (Type \<times> Builder))
   \<Rightarrow> Builder \<Rightarrow> JsonValue \<Rightarrow> string \<Rightarrow> error + (Type \<times> Builder)" where
  "walkUnion walk st schema loc =
     (let st1 = warnExtraKeys st schema (Inl TagUnion) loc in
      and_then (walk_branches walk st1 schema ''anyOf'' loc) (\<lambda>(anyItems, st2).
      and_then (walk_branches walk st2 schema ''oneOf'' loc) (\<lambda>(oneItems, st3).
        (let its = anyItems @ oneItems in
         if length its = 1 then Inr (its ! 0, st3)
         else Inr (simplifyUnionType loc its, st3)))))"

text \<open>
  \<open>walkObjectType\<close>, given \<^verbatim>\<open>this.#walkType\<close> as \<open>walk\<close>, itself as \<open>walkObject\<close> and
  \<^verbatim>\<open>this.#extractDocumentation\<close> as \<open>extract\<close>. \<open>walk_alternatives\<close> is the branch for
  \<^verbatim>\<open>anyOf\<close> and for \<^verbatim>\<open>oneOf\<close>: every alternative is merged with the other members of the
  schema and walked as an object. The required names are strings by the type \<open>ObjectType\<close>.
\<close>

definition walk_alternatives ::
  "(Builder \<Rightarrow> JsonValue \<Rightarrow> string \<Rightarrow> error + (Type \<times> Builder))
   \<Rightarrow> Builder \<Rightarrow> JsonValue \<Rightarrow> string \<Rightarrow> JsonValue \<Rightarrow> string \<Rightarrow> error + (Type \<times> Builder)" where
  "walk_alternatives walkObject st schema key alternatives loc =
     and_then (array_elements alternatives) (\<lambda>xs.
     and_then
       (map_action
          (\<lambda>item s.
             and_then
               (mergeSchemas s [Obj (obj_delete (own_entries schema) key), item] allOf_options loc)
               (\<lambda>(merged, s'). walkObject s' (Obj merged) loc))
          xs st)
       (\<lambda>(its, st'). Inr (simplifyUnionType loc its, st')))"

definition required_names :: "JsonValue option \<Rightarrow> error + string list" where
  "required_names r =
     (case r of
        None \<Rightarrow> Inr []
      | Some (Prim PNull) \<Rightarrow> Inr []
      | Some (Arr xs) \<Rightarrow>
          if list_all (\<lambda>x. case x of Prim (PStr _) \<Rightarrow> True | _ \<Rightarrow> False) xs
          then Inr (List.map_filter (\<lambda>x. case x of Prim (PStr s) \<Rightarrow> Some s | _ \<Rightarrow> None) xs)
          else Inl (Unmodelled ''a required list that is not a list of strings'')
      | Some _ \<Rightarrow> Inl (Unmodelled ''a required list that is not a list of strings''))"

definition walkObjectType ::
  "(Builder \<Rightarrow> JsonValue \<Rightarrow> string \<Rightarrow> error + (Type \<times> Builder))
   \<Rightarrow> (Builder \<Rightarrow> JsonValue \<Rightarrow> string \<Rightarrow> error + (Type \<times> Builder))
   \<Rightarrow> (Builder \<Rightarrow> JsonValue \<Rightarrow> string \<Rightarrow> error + (ExtractDocumentationResult \<times> Builder))
   \<Rightarrow> Builder \<Rightarrow> JsonValue \<Rightarrow> string \<Rightarrow> error + (Type \<times> Builder)" where
  "walkObjectType walk walkObject extract st schema loc =
     (if \<not> (schema_type schema = None \<or> type_is schema ''object'')
      then Inl (AssertionError ''expected object schema'')
      else if (case get_prop schema ''allOf'' of Some a \<Rightarrow> truthy a | None \<Rightarrow> False)
      then and_then (mergeAllOf st schema loc) (\<lambda>(merged, st1). walkObject st1 merged loc)
      else
        (case get_prop schema ''anyOf'' of
           Some alternatives \<Rightarrow> walk_alternatives walkObject st schema ''anyOf'' alternatives loc
         | None \<Rightarrow>
             (case get_prop schema ''oneOf'' of
                Some alternatives \<Rightarrow> walk_alternatives walkObject st schema ''oneOf'' alternatives loc
              | None \<Rightarrow>
                  if \<not> (case get_prop schema ''properties'' of Some p \<Rightarrow> truthy p | None \<Rightarrow> False)
                  then walkRecordType walk st schema loc
                  else
                    (let st1 = warnExtraKeys st schema (Inl TagObject) loc in
                     and_then (required_names (get_prop schema ''required'')) (\<lambda>req.
                     and_then
                       (map_action
                          (\<lambda>(propertyName, propertySchema) s.
                             and_then
                               (walkProperty walk extract s propertySchema
                                  (posix_join [loc, ''properties'', propertyName]))
                               (\<lambda>(p, s'). Inr ((propertyName, p), s')))
                          (own_entries (the (get_prop schema ''properties''))) st1)
                       (\<lambda>(props, st2).
                          Inr (ObjectType loc (foldl (\<lambda>ps (k, p). obj_set ps k p) [] props) req,
                               st2)))))))"

subsection \<open>\<^verbatim>\<open>#walkType\<close>\<close>

text \<open>\<^verbatim>\<open>branches.every((x) => x.type === schema.type)\<close>; reading \<^verbatim>\<open>x.type\<close> throws on \<^verbatim>\<open>null\<close>.\<close>

fun every_type_is :: "JsonValue list \<Rightarrow> JsonValue \<Rightarrow> error + bool" where
  "every_type_is [] ty = Inr True"
| "every_type_is (x # xs) ty =
     (if is_null x then Inl (TypeError ''Cannot read properties of null'')
      else if (case get_prop x ''type'' of Some t \<Rightarrow> strict_equal t ty | None \<Rightarrow> False)
      then every_type_is xs ty
      else Inr False)"

text \<open>
  The two tests at the head of \<open>walkType\<close>: a schema of exactly two members, \<^verbatim>\<open>type\<close> and the
  combinator, whose branches all repeat the type, is walked without its \<^verbatim>\<open>type\<close>. The result
  says whether that is so.
\<close>

definition repeats_type :: "JsonValue \<Rightarrow> string \<Rightarrow> error + bool" where
  "repeats_type schema key =
     (case get_prop schema key of
        Some branches \<Rightarrow>
          if length (own_entries schema) = 2 then
            (case schema_type schema of
               Some ty \<Rightarrow>
                 if truthy ty
                 then and_then (array_elements branches) (\<lambda>xs. every_type_is xs ty)
                 else Inr False
             | None \<Rightarrow> Inr False)
          else Inr False
      | None \<Rightarrow> Inr False)"

definition walkType_body ::
  "(Builder \<Rightarrow> JsonValue \<Rightarrow> string \<Rightarrow> error + (Type \<times> Builder))
   \<Rightarrow> (Builder \<Rightarrow> JsonValue \<Rightarrow> string \<Rightarrow> error + (Type \<times> Builder))
   \<Rightarrow> (Builder \<Rightarrow> JsonValue \<Rightarrow> string \<Rightarrow> error + (ExtractDocumentationResult \<times> Builder))
   \<Rightarrow> Builder \<Rightarrow> JsonValue \<Rightarrow> string \<Rightarrow> error + (Type \<times> Builder)" where
  "walkType_body walk walkObject extract st schema loc =
     (if is_null schema then Inl (TypeError ''Cannot convert undefined or null to object'')
      else if length (own_entries schema) = 0 then Inr (AnyType loc, st)
      else
        and_then (repeats_type schema ''anyOf'') (\<lambda>anyRepeats.
          if anyRepeats then walk st (Obj (obj_delete (own_entries schema) ''type'')) loc
          else
            and_then (repeats_type schema ''oneOf'') (\<lambda>oneRepeats.
              if oneRepeats then walk st (Obj (obj_delete (own_entries schema) ''type'')) loc
              else if get_prop schema ''$ref'' \<noteq> None then walkRefType walk st schema loc
              else if get_prop schema ''const'' \<noteq> None then walkConstType st schema loc
              else if get_prop schema ''enum'' \<noteq> None then walkEnumType st schema loc
              else if type_is schema ''array'' then walkArrayType walk extract st schema loc
              else if (case schema_type schema of Some (Arr _) \<Rightarrow> True | _ \<Rightarrow> False)
              then walkMultiType walk st schema loc
              else if type_is schema ''boolean'' then walkBooleanType st schema loc
              else if type_is schema ''integer'' \<or> type_is schema ''number''
              then walkNumberType st schema loc
              else if type_is schema ''null'' then walkNullType st schema loc
              else if isStringSchema schema then walkStringType st schema loc
              else if isObjectSchema schema \<or> isRecordSchema schema
              then walkObject st schema loc
              else if get_prop schema ''anyOf'' \<noteq> None \<or> get_prop schema ''oneOf'' \<noteq> None
              then walkUnion walk st schema loc
              else Inr (UnknownType loc, warn st loc ''unknown schema type'' [schema]))))"

text \<open>
  \<open>walkType\<close> and \<open>walkObjectType\<close> call each other and themselves; the first argument of
  \<open>walkers\<close> is the depth of calls that is left, for both.
\<close>

primrec walkers ::
  "nat \<Rightarrow> (Builder \<Rightarrow> JsonValue \<Rightarrow> string \<Rightarrow> error + (Type \<times> Builder))
        \<times> (Builder \<Rightarrow> JsonValue \<Rightarrow> string \<Rightarrow> error + (Type \<times> Builder))" where
  "walkers 0 = (\<lambda>st schema loc. Inl OutOfFuel, \<lambda>st schema loc. Inl OutOfFuel)"
| "walkers (Suc n) =
     (walkType_body (fst (walkers n)) (snd (walkers n)) (extractDocumentation n),
      walkObjectType (fst (walkers n)) (snd (walkers n)) (extractDocumentation n))"

definition walkType :: "nat \<Rightarrow> Builder \<Rightarrow> JsonValue \<Rightarrow> string \<Rightarrow> error + (Type \<times> Builder)" where
  "walkType fuel = fst (walkers fuel)"

section \<open>Attributes and read-only properties (\<^verbatim>\<open>build-lib/resource-builder.ts\<close>, continued)\<close>

subsection \<open>Places in the type graph\<close>

text \<open>
  The walker creates every node of the graph once: the root type and the type of each
  definition are trees, and a reference holds the name of a definition. The analysis changes
  the flags of \<open>PropertyInfo\<close> objects where they are, and compares nodes by identity. So a
  node is named here by its place: the tree it belongs to and the steps from the top of that
  tree; following a reference leads to the top of the tree of the definition. A property is
  named by the place of its object node and its key.
\<close>

datatype origin = Root | Def string

datatype step = Prop string | Items | Value | Member nat

type_synonym node_ref = "origin \<times> step list"

type_synonym prop_ref = "node_ref \<times> string"

fun subnode :: "Type \<Rightarrow> step \<Rightarrow> Type option" where
  "subnode (ObjectType _ props _) (Prop k) = map_option prop_type (map_of props k)"
| "subnode (ArrayType _ item) Items = Some (item_type item)"
| "subnode (RecordType _ v) Value = Some v"
| "subnode (UnionType _ its) (Member i) = (if i < length its then Some (its ! i) else None)"
| "subnode _ _ = None"

fun node_at :: "Type \<Rightarrow> step list \<Rightarrow> Type option" where
  "node_at t [] = Some t"
| "node_at t (s # ss) = (case subnode t s of Some t' \<Rightarrow> node_at t' ss | None \<Rightarrow> None)"

definition origin_type :: "ResourceType \<Rightarrow> origin \<Rightarrow> Type option" where
  "origin_type r og =
     (case og of
        Root \<Rightarrow> Some (def_type (properties r))
      | Def nm \<Rightarrow> map_option def_type (map_of (definitions r) nm))"

definition get_node :: "ResourceType \<Rightarrow> node_ref \<Rightarrow> Type option" where
  "get_node r n = (case origin_type r (fst n) of Some t \<Rightarrow> node_at t (snd n) | None \<Rightarrow> None)"

definition get_property :: "ResourceType \<Rightarrow> prop_ref \<Rightarrow> PropertyInfo option" where
  "get_property r pr =
     (case get_node r (fst pr) of
        Some (ObjectType _ props _) \<Rightarrow> map_of props (snd pr)
      | _ \<Rightarrow> None)"

text \<open>The place of \<^verbatim>\<open>prop.type\<close>, and the place under a node after one more step.\<close>

definition below :: "node_ref \<Rightarrow> step \<Rightarrow> node_ref" where
  "below n s = (fst n, snd n @ [s])"

definition type_ref :: "prop_ref \<Rightarrow> node_ref" where
  "type_ref pr = below (fst pr) (Prop (snd pr))"

text \<open>Assignments to the members of a node at a place.\<close>

definition with_prop_type :: "PropertyInfo \<Rightarrow> Type \<Rightarrow> PropertyInfo" where
  "with_prop_type p t = PropertyInfo (documentation p) (isAttribute p) (readOnly p) t"

fun map_subnode :: "(Type \<Rightarrow> Type) \<Rightarrow> step \<Rightarrow> Type \<Rightarrow> Type" where
  "map_subnode f (Prop k) (ObjectType i props req) =
     ObjectType i
       (map (\<lambda>(k', p). (k', if k' = k then with_prop_type p (f (prop_type p)) else p)) props) req"
| "map_subnode f Items (ArrayType i item) =
     ArrayType i (ItemInfo (item_documentation item) (f (item_type item)))"
| "map_subnode f Value (RecordType i v) = RecordType i (f v)"
| "map_subnode f (Member n) (UnionType i its) =
     UnionType i (if n < length its then its[n := f (its ! n)] else its)"
| "map_subnode f _ t = t"

primrec map_node_at :: "(Type \<Rightarrow> Type) \<Rightarrow> step list \<Rightarrow> Type \<Rightarrow> Type" where
  "map_node_at f [] = f"
| "map_node_at f (s # ss) = map_subnode (map_node_at f ss) s"

definition update_node :: "ResourceType \<Rightarrow> node_ref \<Rightarrow> (Type \<Rightarrow> Type) \<Rightarrow> ResourceType" where
  "update_node r n f =
     (case fst n of
        Root \<Rightarrow>
          r\<lparr>properties := (properties r)\<lparr>def_type := map_node_at f (snd n) (def_type (properties r))\<rparr>\<rparr>
      | Def nm \<Rightarrow>
          r\<lparr>definitions :=
               map (\<lambda>(k, d). (k, if k = nm then d\<lparr>def_type := map_node_at f (snd n) (def_type d)\<rparr>
                                  else d))
                 (definitions r)\<rparr>)"

definition on_properties ::
  "((string \<times> PropertyInfo) list \<Rightarrow> (string \<times> PropertyInfo) list) \<Rightarrow> Type \<Rightarrow> Type" where
  "on_properties g t = (case t of ObjectType i props req \<Rightarrow> ObjectType i (g props) req | _ \<Rightarrow> t)"

definition update_properties ::
  "ResourceType \<Rightarrow> node_ref
   \<Rightarrow> ((string \<times> PropertyInfo) list \<Rightarrow> (string \<times> PropertyInfo) list) \<Rightarrow> ResourceType" where
  "update_properties r n g = update_node r n (on_properties g)"

definition on_property ::
  "string \<Rightarrow> (PropertyInfo \<Rightarrow> PropertyInfo)
   \<Rightarrow> (string \<times> PropertyInfo) list \<Rightarrow> (string \<times> PropertyInfo) list" where
  "on_property k h props = map (\<lambda>(k', p). (k', if k' = k then h p else p)) props"

definition update_property ::
  "ResourceType \<Rightarrow> prop_ref \<Rightarrow> (PropertyInfo \<Rightarrow> PropertyInfo) \<Rightarrow> ResourceType" where
  "update_property r pr h = update_properties r (fst pr) (on_property (snd pr) h)"

text \<open>\<^verbatim>\<open>property[flag] = value\<close> for the two flags.\<close>

datatype Flag = IsAttribute | ReadOnly

fun set_flag :: "Flag \<Rightarrow> bool \<Rightarrow> PropertyInfo \<Rightarrow> PropertyInfo" where
  "set_flag IsAttribute v p = PropertyInfo (documentation p) (Some v) (readOnly p) (prop_type p)"
| "set_flag ReadOnly v p = PropertyInfo (documentation p) (isAttribute p) (Some v) (prop_type p)"

subsection \<open>\<^verbatim>\<open>#findProperty\<close>\<close>

text \<open>
  The \<^verbatim>\<open>while\<close> loop that replaces a reference to a named definition by the type of the
  definition. It does not end on a definition that is a reference to itself; the first
  argument bounds the number of its rounds.
\<close>

primrec follow_references :: "nat \<Rightarrow> ResourceType \<Rightarrow> node_ref \<Rightarrow> error + node_ref" where
  "follow_references 0 r n = Inl OutOfFuel"
| "follow_references (Suc k) r n =
     (case get_node r n of
        Some (ReferenceType _ (Name nm)) \<Rightarrow>
          (case map_of (definitions r) nm of
             Some _ \<Rightarrow> follow_references k r (Def nm, [])
           | None \<Rightarrow> Inl (AssertionError ''unexpected definition not found''))
      | _ \<Rightarrow> Inr n)"

text \<open>
  \<^verbatim>\<open>node.properties[part] = prop; delete node.properties[mangledName]\<close>, where \<^verbatim>\<open>prop\<close> is
  the property under the mangled name.
\<close>

definition rename_property ::
  "string \<Rightarrow> string \<Rightarrow> (string \<times> PropertyInfo) list \<Rightarrow> (string \<times> PropertyInfo) list" where
  "rename_property mangledName part props =
     (case map_of props mangledName of
        Some prop \<Rightarrow> obj_delete (obj_set props part prop) mangledName
      | None \<Rightarrow> props)"

text \<open>
  The \<^verbatim>\<open>for\<close> loop of \<open>findProperty\<close> from the part it has reached, with the node it has
  reached. \<open>again\<close> is the recursive call for a member of a union, which receives the parts
  that are left joined into a path again; \<open>follow\<close> is the loop over the references. The
  result is the properties found and the resource, in which properties may have been renamed.
\<close>

fun find_loop ::
  "(ResourceType \<Rightarrow> string \<Rightarrow> node_ref \<Rightarrow> error + (prop_ref list \<times> ResourceType))
   \<Rightarrow> (ResourceType \<Rightarrow> node_ref \<Rightarrow> error + node_ref)
   \<Rightarrow> bool \<Rightarrow> ResourceType \<Rightarrow> node_ref \<Rightarrow> string list
   \<Rightarrow> error + (prop_ref list \<times> ResourceType)" where
  "find_loop again follow mangle r n [] = Inr ([], r)"
| "find_loop again follow mangle r n (part # rest) =
     (if part = [] then Inl (AssertionError ''part'')
      else
        and_then (follow r n) (\<lambda>n1.
          (case get_node r n1 of
             None \<Rightarrow> Inl (Unmodelled ''no node at this place'')
           | Some (UnionType _ its) \<Rightarrow>
               and_then
                 (map_action (\<lambda>i r'. again r' (join_with ''/'' (part # rest)) (below n1 (Member i)))
                    [0..<length its] r)
                 (\<lambda>(results, r'). Inr (concat results, r'))
           | Some (ArrayType _ _) \<Rightarrow>
               if part = ''*'' then find_loop again follow mangle r (below n1 Items) rest
               else Inr ([], r)
           | Some (ObjectType _ props _) \<Rightarrow>
               if part = ''*'' then Inr ([], r)
               else
                 (let mangledName = filter (\<lambda>c. c \<noteq> CHR ''.'') part;
                      renamed = (mangle \<and> map_of props part = None
                                 \<and> map_of props mangledName \<noteq> None);
                      r1 = (if renamed
                            then update_properties r n1 (rename_property mangledName part)
                            else r)
                  in if map_of props part = None \<and> \<not> renamed then Inr ([], r1)
                     else if rest = [] then Inr ([(n1, part)], r1)
                     else find_loop again follow mangle r1 (below n1 (Prop part)) rest)
           | Some _ \<Rightarrow> Inr ([], r))))"

definition findProperty_body ::
  "(ResourceType \<Rightarrow> string \<Rightarrow> node_ref \<Rightarrow> error + (prop_ref list \<times> ResourceType))
   \<Rightarrow> (ResourceType \<Rightarrow> node_ref \<Rightarrow> error + node_ref)
   \<Rightarrow> bool \<Rightarrow> ResourceType \<Rightarrow> string \<Rightarrow> node_ref option
   \<Rightarrow> error + (prop_ref list \<times> ResourceType)" where
  "findProperty_body again follow mangle r path start =
     (case start of
        Some n \<Rightarrow> find_loop again follow mangle r n (split_on CHR ''/'' path)
      | None \<Rightarrow>
          if starts_with path ''/properties/''
          then find_loop again follow mangle r (Root, []) (split_on CHR ''/'' (drop 12 path))
          else Inr ([], r))"

primrec findProperty ::
  "nat \<Rightarrow> bool \<Rightarrow> ResourceType \<Rightarrow> string \<Rightarrow> node_ref option
   \<Rightarrow> error + (prop_ref list \<times> ResourceType)" where
  "findProperty 0 = (\<lambda>mangle r path start. Inl OutOfFuel)"
| "findProperty (Suc k) = (\<lambda>mangle r path start.
     findProperty_body (\<lambda>r' p n. findProperty k mangle r' p (Some n))
       (follow_references (Suc k)) mangle r path start)"

text \<open>
  The properties a caller receives. A property object that was found under a member of a
  union and renamed afterwards, under a later member, would no longer be at the place
  recorded for it; every place of the result is looked up again in the resource returned,
  and the embedding stops if one is not there.
\<close>

definition found_properties ::
  "nat \<Rightarrow> bool \<Rightarrow> ResourceType \<Rightarrow> string \<Rightarrow> error + (prop_ref list \<times> ResourceType)" where
  "found_properties fuel mangle r path =
     and_then (findProperty fuel mangle r path None) (\<lambda>(props, r').
       if list_all (\<lambda>pr. get_property r' pr \<noteq> None) props then Inr (props, r')
       else Inl (Unmodelled ''a property renamed after it was found''))"

subsection \<open>\<^verbatim>\<open>#markChildren\<close>\<close>

text \<open>
  \<open>markChildren\<close>. The stack holds the nodes on the way from the node of the first call; a
  node that is on it is left alone. The first argument bounds the depth of the calls.
\<close>

primrec markChildren ::
  "nat \<Rightarrow> ResourceType \<Rightarrow> node_ref \<Rightarrow> Flag \<Rightarrow> bool \<Rightarrow> nat option \<Rightarrow> nat \<Rightarrow> node_ref list
   \<Rightarrow> error + ResourceType" where
  "markChildren 0 = (\<lambda>r n flag v maxDepth depth visited. Inl OutOfFuel)"
| "markChildren (Suc k) = (\<lambda>r n flag v maxDepth depth visited.
     if n \<in> set visited then Inr r
     else
       (case get_node r n of
          None \<Rightarrow> Inl (Unmodelled ''no node at this place'')
        | Some (ObjectType _ props _) \<Rightarrow>
            fold_result
              (\<lambda>key r'.
                 (let r1 = update_property r' (n, key) (set_flag flag v)
                  in if (case maxDepth of None \<Rightarrow> True | Some m \<Rightarrow> depth < m)
                     then markChildren k r1 (below n (Prop key)) flag v maxDepth (depth + 1)
                            (visited @ [n])
                     else Inr r1))
              (map fst props) r
        | Some (ArrayType _ _) \<Rightarrow>
            markChildren k r (below n Items) flag v maxDepth depth (visited @ [n])
        | Some (RecordType _ _) \<Rightarrow>
            markChildren k r (below n Value) flag v maxDepth depth (visited @ [n])
        | Some (ReferenceType _ nm) \<Rightarrow>
            (case nm of
               Name s \<Rightarrow>
                 (case map_of (definitions r) s of
                    Some _ \<Rightarrow> markChildren k r (Def s, []) flag v maxDepth depth (visited @ [n])
                  | None \<Rightarrow> Inr r)
             | _ \<Rightarrow> Inr r)
        | Some (UnionType _ its) \<Rightarrow>
            fold_result
              (\<lambda>i r'. markChildren k r' (below n (Member i)) flag v maxDepth depth (visited @ [n]))
              [0..<length its] r
        | Some _ \<Rightarrow> Inr r))"

subsection \<open>The tests on the children of a node\<close>

text \<open>\<^verbatim>\<open>xs.every(f)\<close> for a test that may throw: it stops at the first \<^verbatim>\<open>false\<close>.\<close>

fun every_result :: "('a \<Rightarrow> error + bool) \<Rightarrow> 'a list \<Rightarrow> error + bool" where
  "every_result f [] = Inr True"
| "every_result f (x # xs) = and_then (f x) (\<lambda>b. if b then every_result f xs else Inr False)"

text \<open>
  \<open>allReadOnlyChildren\<close>, \<open>anyAttributeChildren\<close> and \<open>isValidAttributeType\<close> follow
  references with no protection against a cycle; the first argument bounds the depth.
\<close>

primrec allReadOnlyChildren :: "nat \<Rightarrow> ResourceType \<Rightarrow> Type \<Rightarrow> error + bool" where
  "allReadOnlyChildren 0 = (\<lambda>r node. Inl OutOfFuel)"
| "allReadOnlyChildren (Suc k) = (\<lambda>r node.
     (case node of
        ArrayType _ item \<Rightarrow> allReadOnlyChildren k r (item_type item)
      | ObjectType _ props _ \<Rightarrow> Inr (list_all (\<lambda>(_, x). readOnly x = Some True) props)
      | ReferenceType _ nm \<Rightarrow>
          (case nm of
             Name s \<Rightarrow>
               (case map_of (definitions r) s of
                  Some target \<Rightarrow> allReadOnlyChildren k r (def_type target)
                | None \<Rightarrow> Inl (AssertionError ''unexpected invalid reference name''))
           | _ \<Rightarrow> Inr False)
      | UnionType _ its \<Rightarrow> every_result (allReadOnlyChildren k r) its
      | _ \<Rightarrow> Inr False))"

primrec anyAttributeChildren :: "nat \<Rightarrow> ResourceType \<Rightarrow> Type \<Rightarrow> error + bool" where
  "anyAttributeChildren 0 = (\<lambda>r node. Inl OutOfFuel)"
| "anyAttributeChildren (Suc k) = (\<lambda>r node.
     (case node of
        ArrayType _ item \<Rightarrow> anyAttributeChildren k r (item_type item)
      | ObjectType _ props _ \<Rightarrow> Inr (list_ex (\<lambda>(_, x). isAttribute x = Some True) props)
      | ReferenceType _ nm \<Rightarrow>
          (case nm of
             Name s \<Rightarrow>
               (case map_of (definitions r) s of
                  Some target \<Rightarrow> anyAttributeChildren k r (def_type target)
                | None \<Rightarrow> Inl (AssertionError ''unexpected invalid reference name''))
           | _ \<Rightarrow> Inr False)
      | UnionType _ its \<Rightarrow> every_result (anyAttributeChildren k r) its
      | _ \<Rightarrow> Inr False))"

primrec isValidAttributeType :: "nat \<Rightarrow> ResourceType \<Rightarrow> Type \<Rightarrow> error + bool" where
  "isValidAttributeType 0 = (\<lambda>r ty. Inl OutOfFuel)"
| "isValidAttributeType (Suc k) = (\<lambda>r ty.
     (case ty of
        ArrayType _ item \<Rightarrow> isValidAttributeType k r (item_type item)
      | ReferenceType _ nm \<Rightarrow>
          (case nm of
             Name s \<Rightarrow>
               (case map_of (definitions r) s of
                  Some target \<Rightarrow> isValidAttributeType k r (def_type target)
                | None \<Rightarrow> Inr False)
           | _ \<Rightarrow> Inr False)
      | UnionType _ its \<Rightarrow> every_result (isValidAttributeType k r) its
      | ObjectType _ _ _ \<Rightarrow> Inr False
      | RecordType _ _ \<Rightarrow> Inr False
      | _ \<Rightarrow> Inr True))"

subsection \<open>\<^verbatim>\<open>#addAttribute\<close>\<close>

text \<open>The body of the loop over the properties found.\<close>

definition eligible :: "nat \<Rightarrow> bool \<Rightarrow> ResourceType \<Rightarrow> Type \<Rightarrow> error + bool" where
  "eligible fuel hasWildcardPath r ty =
     (if hasWildcardPath then Inr False else isValidAttributeType fuel r ty)"

definition mark_found :: "nat \<Rightarrow> bool \<Rightarrow> bool \<Rightarrow> prop_ref \<Rightarrow> ResourceType \<Rightarrow> error + ResourceType" where
  "mark_found fuel hasWildcardPath ro pr r =
     (case get_property r pr of
        None \<Rightarrow> Inl (Unmodelled ''no property at this place'')
      | Some prop \<Rightarrow>
          and_then (eligible fuel hasWildcardPath r (prop_type prop)) (\<lambda>ok.
          and_then
            (if ok
             then markChildren fuel (update_property r pr (set_flag IsAttribute True)) (type_ref pr)
                    IsAttribute True None 1 []
             else Inr r)
            (\<lambda>r1. Inr (if ro then update_property r1 pr (set_flag ReadOnly True) else r1))))"

text \<open>\<^verbatim>\<open>path.slice("/properties/".length).split("/").join(".")\<close>.\<close>

definition attribute_name :: "string \<Rightarrow> string" where
  "attribute_name path = join_with ''.'' (split_on CHR ''/'' (drop 12 path))"

text \<open>\<^verbatim>\<open>this.#documenter.getAttributeDocs?.(this.#root.typeName, name)\<close>.\<close>

definition attribute_docs :: "Builder \<Rightarrow> string option \<Rightarrow> TypeDocumentation option" where
  "attribute_docs st nm =
     (case getAttributeDocs (documenter st) of
        Some f \<Rightarrow> f (typeName (root st)) nm
      | None \<Rightarrow> None)"

text \<open>
  The last statements of \<open>addAttribute\<close>: \<^verbatim>\<open>attributes\<close> is created if it is not there, the
  entry is stored under the name and the name is pushed to \<^verbatim>\<open>required\<close>.
\<close>

definition add_entry ::
  "ResourceType \<Rightarrow> TypeDocumentation option \<Rightarrow> string \<Rightarrow> PropertyInfo \<Rightarrow> ResourceType" where
  "add_entry r docs nm entry =
     (let a = (case attributes r of
                 Some a \<Rightarrow> a
               | None \<Rightarrow> \<lparr>def_documentation = docs, def_type = ObjectType ''/attributes'' [] []\<rparr>)
      in r\<lparr>attributes :=
             Some (a\<lparr>def_type :=
                      (case def_type a of
                         ObjectType i props req \<Rightarrow> ObjectType i (obj_set props nm entry) (req @ [nm])
                       | t \<Rightarrow> t)\<rparr>)\<rparr>)"

definition addAttribute :: "nat \<Rightarrow> Builder \<Rightarrow> string \<Rightarrow> bool \<Rightarrow> error + Builder" where
  "addAttribute fuel st path ro =
     and_then
       (found_properties fuel (starts_with (typeName (root st)) ''AWS::'') (root st) path)
       (\<lambda>(props, r0).
          if length props = 0
          then Inr (warn (st\<lparr>root := r0\<rparr>) ''/readOnlyProperties'' ''bad reference %O''
                      [Prim (PStr path)])
          else
            (let hasWildcardPath = (CHR ''*'' \<in> set path) in
             and_then (fold_result (mark_found fuel hasWildcardPath ro) props r0) (\<lambda>r1.
               (case get_property r1 (props ! 0) of
                  None \<Rightarrow> Inl (Unmodelled ''no property at this place'')
                | Some prop \<Rightarrow>
                    (let types = List.map_filter (\<lambda>pr. map_option prop_type (get_property r1 pr)) props;
                         st1 = (if \<not> list_all (isSameType (prop_type prop)) types
                                then warn (st\<lparr>root := r1\<rparr>) ''/readOnlyProperties''
                                       ''attribute has multiple possible types'' [Prim (PStr path)]
                                else st\<lparr>root := r1\<rparr>)
                     in if \<not> starts_with path ''/properties/''
                        then Inl (AssertionError ''path.startsWith(/properties/)'')
                        else
                          (let nm = attribute_name path;
                               own = (case documentation prop of Some d \<Rightarrow> d | None \<Rightarrow> []);
                               docs = (case attribute_docs st1 (Some nm) of
                                         Some extraDocs \<Rightarrow> assign own [extraDocs]
                                       | None \<Rightarrow> own)
                           in and_then (eligible fuel hasWildcardPath r1 (prop_type prop)) (\<lambda>ok.
                                Inr (if ok
                                     then st1\<lparr>root :=
                                            add_entry r1 (attribute_docs st1 None) nm
                                              (PropertyInfo (Some docs) (Some True) None
                                                 (prop_type prop))\<rparr>
                                     else st1))))))))"

subsection \<open>\<^verbatim>\<open>getBreadcrumbs\<close> (\<^verbatim>\<open>build-lib/schema-paths.ts\<close>)\<close>

text \<open>
  The loop that collects the parents of one path. \<^verbatim>\<open>posix.dirname\<close> gives a shorter path
  until it gives \<^verbatim>\<open>/\<close> or \<^verbatim>\<open>.\<close>, which it maps to themselves, so a path has fewer parents than
  characters; the first argument is that bound.
\<close>

primrec parents_of :: "nat \<Rightarrow> string \<Rightarrow> string list" where
  "parents_of 0 current = []"
| "parents_of (Suc k) current =
     (let next = posix_dirname current
      in if next = ''/properties'' \<or> next = current then []
         else (if posix_basename next \<noteq> ''*'' then [next] else []) @ parents_of k next)"

definition segment_count :: "string \<Rightarrow> int" where
  "segment_count p = int (length (split_on CHR ''/'' p))"

definition getBreadcrumbs :: "string list \<Rightarrow> string list" where
  "getBreadcrumbs paths =
     (let breadcrumbs = concat (map (\<lambda>path. parents_of (length path + 2) path) paths);
          unique = foldl set_add [] breadcrumbs;
          remaining = foldl set_delete unique paths
      in stable_sort (\<lambda>a b. segment_count b - segment_count a) remaining)"

subsection \<open>\<^verbatim>\<open>#analyzePaths\<close>\<close>

text \<open>The body of the loop over the properties at a breadcrumb.\<close>

definition promote :: "nat \<Rightarrow> prop_ref \<Rightarrow> ResourceType \<Rightarrow> error + ResourceType" where
  "promote fuel pr r =
     (case get_property r pr of
        None \<Rightarrow> Inl (Unmodelled ''no property at this place'')
      | Some prop \<Rightarrow>
          and_then (allReadOnlyChildren fuel r (prop_type prop)) (\<lambda>allReadOnly.
          and_then
            (if allReadOnly
             then markChildren fuel (update_property r pr (set_flag ReadOnly True)) (type_ref pr)
                    ReadOnly False (Some 1) 1 []
             else Inr r)
            (\<lambda>r1.
               (case get_property r1 pr of
                  None \<Rightarrow> Inl (Unmodelled ''no property at this place'')
                | Some prop1 \<Rightarrow>
                    and_then (anyAttributeChildren fuel r1 (prop_type prop1)) (\<lambda>anyAttribute.
                      Inr (if anyAttribute then update_property r1 pr (set_flag IsAttribute True)
                           else r1))))))"

definition promote_path :: "nat \<Rightarrow> string \<Rightarrow> ResourceType \<Rightarrow> error + ResourceType" where
  "promote_path fuel path r =
     and_then (found_properties fuel False r path) (\<lambda>(props, r1).
       fold_result (promote fuel) props r1)"

text \<open>
  The paths of \<^verbatim>\<open>readOnlyProperties\<close> as the \<^verbatim>\<open>for...of\<close> loop meets them: the elements of an
  array or the characters of a string; another value is not iterable.
\<close>

fun path_of :: "JsonValue \<Rightarrow> error + string" where
  "path_of (Prim (PStr s)) = Inr s"
| "path_of _ = Inl (TypeError ''path.startsWith is not a function'')"

definition analyzePaths :: "nat \<Rightarrow> Builder \<Rightarrow> error + Builder" where
  "analyzePaths fuel st =
     (case get_prop (resourceSchema st) ''readOnlyProperties'' of
        None \<Rightarrow> Inr st
      | Some paths \<Rightarrow>
          if \<not> truthy paths then Inr st
          else
            and_then (spread paths) (\<lambda>elements.
            and_then
              (fold_result (\<lambda>x s. and_then (path_of x) (\<lambda>path. addAttribute fuel s path True))
                 elements st)
              (\<lambda>st1.
                 and_then (array_elements paths) (\<lambda>_.
                 and_then (map_result path_of elements) (\<lambda>given.
                 and_then (fold_result (promote_path fuel) (getBreadcrumbs given) (root st1))
                   (\<lambda>r. Inr (st1\<lparr>root := r\<rparr>)))))))"

subsection \<open>\<^verbatim>\<open>ExtraAttributes\<close> (\<^verbatim>\<open>build-lib/extra-attributes.ts\<close>)\<close>

definition ExtraAttributes :: "(string \<times> string list) list" where
  "ExtraAttributes =
     [(''AWS::Amplify::Branch'', [''BranchName'']),
      (''AWS::Amplify::Domain'', [''DomainName'', ''AutoSubDomainCreationPatterns'', ''AutoSubDomainIAMRole'', ''EnableAutoSubDomain'']),
      (''AWS::AppMesh::GatewayRoute'', [''GatewayRouteName'', ''MeshName'', ''MeshOwner'', ''VirtualGatewayName'']),
      (''AWS::AppMesh::Mesh'', [''MeshName'']),
      (''AWS::AppMesh::Route'', [''MeshName'', ''MeshOwner'', ''RouteName'', ''VirtualRouterName'']),
      (''AWS::AppMesh::VirtualGateway'', [''MeshName'', ''MeshOwner'', ''VirtualGatewayName'']),
      (''AWS::AppMesh::VirtualNode'', [''MeshName'', ''MeshOwner'', ''VirtualNodeName'']),
      (''AWS::AppMesh::VirtualRouter'', [''MeshName'', ''MeshOwner'', ''VirtualRouterName'']),
      (''AWS::AppMesh::VirtualService'', [''MeshName'', ''MeshOwner'', ''VirtualServiceName'']),
      (''AWS::AppSync::DataSource'', [''Name'']),
      (''AWS::AppSync::DomainName'', [''DomainName'']),
      (''AWS::AppSync::FunctionConfiguration'', [''DataSourceName'', ''Name'']),
      (''AWS::AppSync::Resolver'', [''FieldName'', ''TypeName'']),
      (''AWS::Backup::BackupSelection'', [''BackupPlanId'']),
      (''AWS::Backup::BackupVault'', [''BackupVaultName'']),
      (''AWS::Cloud9::EnvironmentEC2'', [''Name'']),
      (''AWS::CloudWatch::InsightRule'', [''RuleName'']),
      (''AWS::CodeArtifact::Repository'', [''DomainName'']),
      (''AWS::DocDB::DBCluster'', [''Port'']),
      (''AWS::EC2::CapacityReservation'', [''AvailabilityZone'', ''InstanceType'', ''Tenancy'']),
      (''AWS::EC2::Instance'', [''AvailabilityZone'']),
      (''AWS::EC2::SecurityGroup'', [''VpcId'']),
      (''AWS::EC2::Subnet'', [''AvailabilityZone'', ''AvailabilityZoneId'', ''CidrBlock'', ''VpcId'', ''OutpostArn'']),
      (''AWS::EC2::VPC'', [''CidrBlock'']),
      (''AWS::EFS::MountTarget'', [''IpAddress'']),
      (''AWS::EKS::Nodegroup'', [''ClusterName'', ''NodegroupName'']),
      (''AWS::ElasticLoadBalancingV2::LoadBalancer'', [''SecurityGroups'']),
      (''AWS::Events::EventBus'', [''Name'']),
      (''AWS::EventSchemas::Registry'', [''RegistryName'']),
      (''AWS::EventSchemas::Schema'', [''SchemaName'']),
      (''AWS::GameLift::GameSessionQueue'', [''Name'']),
      (''AWS::GameLift::MatchmakingConfiguration'', [''Name'']),
      (''AWS::GameLift::MatchmakingRuleSet'', [''Name'']),
      (''AWS::Grafana::Workspace'', [''GrafanaVersion'']),
      (''AWS::Greengrass::ConnectorDefinition'', [''Name'']),
      (''AWS::Greengrass::CoreDefinition'', [''Name'']),
      (''AWS::Greengrass::DeviceDefinition'', [''Name'']),
      (''AWS::Greengrass::FunctionDefinition'', [''Name'']),
      (''AWS::Greengrass::Group'', [''Name'', ''RoleArn'']),
      (''AWS::Greengrass::LoggerDefinition'', [''Name'']),
      (''AWS::Greengrass::ResourceDefinition'', [''Name'']),
      (''AWS::Greengrass::SubscriptionDefinition'', [''Name'']),
      (''AWS::ImageBuilder::Component'', [''Name'']),
      (''AWS::ImageBuilder::ContainerRecipe'', [''Name'']),
      (''AWS::ImageBuilder::DistributionConfiguration'', [''Name'']),
      (''AWS::ImageBuilder::ImagePipeline'', [''Name'']),
      (''AWS::ImageBuilder::ImageRecipe'', [''Name'']),
      (''AWS::ImageBuilder::InfrastructureConfiguration'', [''Name'']),
      (''AWS::Kinesis::StreamConsumer'', [''ConsumerName'', ''StreamARN'']),
      (''AWS::ManagedBlockchain::Member'', [''NetworkId'']),
      (''AWS::ManagedBlockchain::Node'', [''MemberId'', ''NetworkId'']),
      (''AWS::MediaConvert::JobTemplate'', [''Name'']),
      (''AWS::MediaConvert::Preset'', [''Name'']),
      (''AWS::MediaConvert::Queue'', [''Name'']),
      (''AWS::MediaLive::Input'', [''Destinations'', ''Sources'']),
      (''AWS::Neptune::DBCluster'', [''Port'']),
      (''AWS::OpsWorks::Instance'', [''AvailabilityZone'']),
      (''AWS::OpsWorks::UserProfile'', [''SshUsername'']),
      (''AWS::RDS::DBInstance'', [''DBSystemId'']),
      (''AWS::RDS::DBParameterGroup'', [''DBParameterGroupName'']),
      (''AWS::RoboMaker::RobotApplication'', [''CurrentRevisionId'']),
      (''AWS::RoboMaker::SimulationApplication'', [''CurrentRevisionId'']),
      (''AWS::Route53Resolver::ResolverEndpoint'', [''Name'', ''Direction'']),
      (''AWS::Route53Resolver::ResolverRule'', [''DomainName'', ''Name'', ''ResolverEndpointId'', ''TargetIps'']),
      (''AWS::Route53Resolver::ResolverRuleAssociation'', [''Name'', ''ResolverRuleId'', ''VPCId'']),
      (''AWS::S3::AccessPoint'', [''Name'']),
      (''AWS::SageMaker::CodeRepository'', [''CodeRepositoryName'']),
      (''AWS::SageMaker::Endpoint'', [''EndpointName'']),
      (''AWS::SageMaker::EndpointConfig'', [''EndpointConfigName'']),
      (''AWS::SageMaker::Model'', [''ModelName'']),
      (''AWS::SageMaker::NotebookInstance'', [''NotebookInstanceName'']),
      (''AWS::SageMaker::NotebookInstanceLifecycleConfig'', [''NotebookInstanceLifecycleConfigName'']),
      (''AWS::SageMaker::Workteam'', [''WorkteamName'']),
      (''AWS::ServiceDiscovery::Service'', [''Name'']),
      (''AWS::SNS::Topic'', [''TopicName'']),
      (''AWS::SQS::Queue'', [''QueueName'']),
      (''AWS::SSM::Parameter'', [''Type'', ''Value'']),
      (''AWS::StepFunctions::Activity'', [''Name'']),
      (''AWS::Transfer::User'', [''ServerId'', ''UserName''])]"

subsection \<open>\<^verbatim>\<open>build\<close>\<close>

definition root_keys :: "string list" where
  "root_keys = [''allOf'', ''anyOf'', ''oneOf'', ''properties'', ''required'']"

text \<open>The loop of \<open>build\<close> over the definitions of the schema.\<close>

definition walk_definitions :: "nat \<Rightarrow> Builder \<Rightarrow> error + Builder" where
  "walk_definitions fuel st =
     (case get_prop (resourceSchema st) ''definitions'' of
        None \<Rightarrow> Inr st
      | Some defs \<Rightarrow>
          if \<not> truthy defs then Inr st
          else
            fold_result
              (\<lambda>(definitionName, def) s.
                 and_then
                   (walkDefinition (walkType fuel) (extractDocumentation fuel) s def
                      (''/definitions/'' @ definitionName))
                   (\<lambda>(d, s').
                      Inr (s'\<lparr>root := (root s')\<lparr>definitions :=
                                          obj_set (definitions (root s')) definitionName d\<rparr>\<rparr>)))
              (own_entries defs) st)"

definition add_extra_attributes :: "nat \<Rightarrow> Builder \<Rightarrow> error + Builder" where
  "add_extra_attributes fuel st =
     (case map_of ExtraAttributes (typeName (root st)) of
        None \<Rightarrow> Inr st
      | Some names \<Rightarrow>
          fold_result (\<lambda>nm s. addAttribute fuel s (''/properties/'' @ nm) False) names st)"

text \<open>
  \<open>build\<close> returns the root of the builder; the builder is returned with it, for the
  warnings it has passed on.
\<close>

definition build :: "nat \<Rightarrow> Builder \<Rightarrow> error + (ResourceType \<times> Builder)" where
  "build fuel st =
     and_then (extractDocumentation fuel st (Obj (pick (resourceSchema st) root_keys)) ''/'')
       (\<lambda>(extracted, st1).
          (case ed_type extracted of
             None \<Rightarrow>
               Inl (AssertionError
                      (''expected type to have a value for resource ''
                       @ quoted (typeName_of (resourceSchema st1))))
           | Some ty \<Rightarrow>
               (let st2 = st1\<lparr>root := (root st1)\<lparr>properties :=
                                (properties (root st1))\<lparr>def_documentation :=
                                                          ed_documentation extracted\<rparr>\<rparr>\<rparr>
                in and_then (walkType fuel st2 (Obj ty) ''/'') (\<lambda>(t, st3).
                   and_then
                     (walk_definitions fuel
                        (st3\<lparr>root := (root st3)\<lparr>properties :=
                                        (properties (root st3))\<lparr>def_type := t\<rparr>\<rparr>\<rparr>))
                     (\<lambda>st4.
                        and_then (analyzePaths fuel st4) (\<lambda>st5.
                        and_then (add_extra_attributes fuel st5) (\<lambda>st6.
                          Inr (root st6, st6))))))))"

section \<open>The view simplifier (\<^verbatim>\<open>build-lib/resource-type-simplifier.ts\<close>)\<close>

datatype ResourceTypeSimplifierMode = ModeAttributes | ModeModel | ModeResource

record ResourceTypeSimplifierOptions =
  opt_mode :: "ResourceTypeSimplifierMode option"
  opt_tagType :: "SymbolName option"

record ResourceTypeSimplifier =
  tagType :: "SymbolName option"
  resource :: ResourceType
  mode :: ResourceTypeSimplifierMode

definition new_ResourceTypeSimplifier ::
  "ResourceType \<Rightarrow> ResourceTypeSimplifierOptions \<Rightarrow> ResourceTypeSimplifier" where
  "new_ResourceTypeSimplifier res options =
     \<lparr>tagType = opt_tagType options, resource = res,
      mode = (case opt_mode options of Some m \<Rightarrow> m | None \<Rightarrow> ModeResource)\<rparr>"

definition ends_with :: "string \<Rightarrow> string \<Rightarrow> bool" where
  "ends_with s suffix = (length suffix \<le> length s \<and> drop (length s - length suffix) s = suffix)"

text \<open>\<^verbatim>\<open>/Tags?$/.test(name)\<close>.\<close>

definition is_tag_name :: "string \<Rightarrow> bool" where
  "is_tag_name nm = (ends_with nm ''Tag'' \<or> ends_with nm ''Tags'')"

definition isTagObject :: "Type \<Rightarrow> bool" where
  "isTagObject target =
     (case target of
        ObjectType _ props _ \<Rightarrow>
          length props = 2
          \<and> (case map_of props ''Key'' of
                Some p \<Rightarrow> type_tag (prop_type p) = TagString | None \<Rightarrow> False)
          \<and> (case map_of props ''Value'' of
                Some p \<Rightarrow> type_tag (prop_type p) = TagString | None \<Rightarrow> False)
      | _ \<Rightarrow> False)"

definition shouldInline :: "ResourceTypeSimplifierMode \<Rightarrow> Type \<Rightarrow> bool" where
  "shouldInline m target =
     (type_tag target \<noteq> TagEnum
      \<and> (type_tag target \<noteq> TagObject \<or> m = ModeAttributes)
      \<and> type_tag target \<noteq> TagUnion)"

text \<open>
  \<open>simplifyType\<close>. The source recurses into the target of a reference it inlines and into
  the members of a union, with no bound of its own; the first argument is the depth of
  recursion that is left. The \<^verbatim>\<open>object\<close> branch builds the view of an object node: in the
  attributes mode the properties with a true \<^verbatim>\<open>isAttribute\<close>, all of them required; otherwise
  the properties without a true \<^verbatim>\<open>readOnly\<close>, and the required names that are still there.
\<close>

primrec simplifyType :: "nat \<Rightarrow> ResourceTypeSimplifier \<Rightarrow> Type \<Rightarrow> error + Type" where
  "simplifyType 0 = (\<lambda>s node. Inl OutOfFuel)"
| "simplifyType (Suc n) = (\<lambda>s node.
     (case node of
        ObjectType i props req \<Rightarrow>
          if mode s = ModeModel then Inr node
          else if mode s = ModeAttributes then
            (let kept = filter (\<lambda>(_, p). isAttribute p = Some True) props
             in Inr (ObjectType i kept (map fst kept)))
          else
            (let kept = filter (\<lambda>(_, p). readOnly p \<noteq> Some True) props
             in Inr (ObjectType i kept (filter (\<lambda>x. x \<in> set (map fst kept)) req)))
      | ReferenceType i nm \<Rightarrow>
          (case nm of
             Name n' \<Rightarrow>
               (case map_of (definitions (resource s)) n' of
                  None \<Rightarrow> Inr node
                | Some d \<Rightarrow>
                    if is_tag_name n' \<and> tagType s \<noteq> None \<and> isTagObject (def_type d)
                    then Inr (ReferenceType i (the (tagType s)))
                    else if shouldInline (mode s) (def_type d)
                    then simplifyType n s (def_type d)
                    else Inr node)
           | _ \<Rightarrow> Inr node)
      | UnionType i its \<Rightarrow>
          and_then (map_result (simplifyType n s) its) (\<lambda>xs. Inr (simplifyUnionType i xs))
      | _ \<Rightarrow> Inr node))"

section \<open>The renderer (\<^verbatim>\<open>build-lib/code-generator.ts\<close>)\<close>

text \<open>
  The nodes of the TypeScript syntax tree that the renderer creates. A leading comment is
  kept as the documentation it is rendered from (\<^verbatim>\<open>makeDocumentation\<close> turns it into lines of
  text, which is not modelled).
\<close>

datatype TsKeyword =
  BooleanKeyword | NumberKeyword | StringKeyword | NeverKeyword | UndefinedKeyword
  | AnyKeyword | UnknownKeyword

datatype TsPropertyName = TsIdentifier string | TsStringLiteral string

datatype TsType =
    TsKeywordType TsKeyword
  | TsLiteralType JsonPrimitive
  | TsTypeReference string "TsType list"
  | TsArrayType TsType
  | TsUnionType "TsType list"
  | TsTypeLiteral "TsPropertySignature list"
  | TsIndexedAccess TsType string
and TsPropertySignature =
  TsPropertySignature TsPropertyName bool TsType "TypeDocumentation option"






text \<open>
  The private fields of a \<open>CodeGenerator\<close>. \<open>referencedNames\<close> is a \<^verbatim>\<open>Set\<close>, kept in the order
  of insertion; \<open>sortProperties\<close> is \<open>None\<close> for \<^verbatim>\<open>false\<close>.
\<close>

record CodeGenerator =
  anyType :: TsKeyword
  exactOptionalPropertyTypes :: bool
  noDocumentation :: bool
  referencedNames :: "SymbolName list"
  simplifier :: "ResourceTypeSimplifier option"
  sortProperties :: "(string \<times> PropertyInfo \<Rightarrow> string \<times> PropertyInfo \<Rightarrow> int) option"
  stack :: "Type list"
  wellKnownTypes :: "(string \<times> SymbolName) list"


text \<open>\<^verbatim>\<open>referencedNames.has(name)\<close> and \<^verbatim>\<open>referencedNames.add(name)\<close>.\<close>

definition has_name :: "CodeGenerator \<Rightarrow> SymbolName \<Rightarrow> bool" where
  "has_name g nm = list_ex (\<lambda>x. same_name x nm) (referencedNames g)"

definition add_name :: "CodeGenerator \<Rightarrow> SymbolName \<Rightarrow> CodeGenerator" where
  "add_name g nm = (if has_name g nm then g else g\<lparr>referencedNames := referencedNames g @ [nm]\<rparr>)"

fun createTypeReference ::
  "CodeGenerator \<Rightarrow> SymbolName \<Rightarrow> TsType list \<Rightarrow> TsType \<times> CodeGenerator" where
  "createTypeReference g (Name n) typeArguments = (TsTypeReference n typeArguments, add_name g (Name n))"
| "createTypeReference g (Imported r e m n t) typeArguments =
     (TsTypeReference n typeArguments, add_name g (Imported r e m n t))"
| "createTypeReference g (Indexed r inner indexes) typeArguments =
     (case createTypeReference (add_name g (Indexed r inner indexes)) inner typeArguments of
        (ty, g') \<Rightarrow> (foldl TsIndexedAccess ty indexes, g'))"














section \<open>Emitting the referenced definitions (\<^verbatim>\<open>build/generate.ts\<close>)\<close>








section \<open>Two small resources\<close>









section \<open>Small resource schemas\<close>

text \<open>
  A schema whose root has no member that describes a type: after its \<^verbatim>\<open>allOf\<close> is merged,
  the root holds a title only.
\<close>

definition empty_resource :: JsonValue where
  "empty_resource =
     Obj [(''typeName'', Prim (PStr ''Test::Empty'')),
          (''description'', Prim (PStr ''A resource without properties'')),
          (''allOf'', Arr [Obj [(''title'', Prim (PStr ''Empty''))]])]"







text \<open>
  The schema of the round-trip scenario as the specification writes it, with the properties
  and the required names inside a member \<^verbatim>\<open>properties\<close>, and the schema with the two at the
  top, where a resource schema has them. \<open>writable_view\<close> is the view of the properties that
  \<^verbatim>\<open>generate.ts\<close> renders: the root type as a simplifier in its default mode gives it.
\<close>

definition string_schema :: JsonValue where
  "string_schema = Obj [(''type'', Prim (PStr ''string''))]"

definition round_trip_literal :: JsonValue where
  "round_trip_literal =
     Obj [(''typeName'', Prim (PStr ''Test::Resource'')),
          (''properties'',
             Obj [(''properties'', Obj [(''Name'', string_schema), (''Id'', string_schema)]),
                  (''required'', Arr [Prim (PStr ''Name'')])]),
          (''readOnlyProperties'', Arr [Prim (PStr ''/properties/Id'')])]"

definition round_trip_schema :: JsonValue where
  "round_trip_schema =
     Obj [(''typeName'', Prim (PStr ''Test::Resource'')),
          (''properties'', Obj [(''Name'', string_schema), (''Id'', string_schema)]),
          (''required'', Arr [Prim (PStr ''Name'')]),
          (''readOnlyProperties'', Arr [Prim (PStr ''/properties/Id'')])]"

definition writable_view :: "nat \<Rightarrow> ResourceType \<Rightarrow> error + Type" where
  "writable_view fuel r =
     simplifyType fuel (new_ResourceTypeSimplifier r \<lparr>opt_mode = None, opt_tagType = None\<rparr>)
       (def_type (properties r))"

section \<open>Properties of the type model\<close>

lemma isSameType_simps [simp]:
  "isSameType (ArrayType i aItems) (ArrayType j bItems) = isSameType (item_type aItems) (item_type bItems)"
  "isSameType (ConstType i av) (ConstType j bv) = (av = bv)"
  "isSameType (EnumType i avs) (EnumType j bvs) = (length avs = length bvs \<and> every_eq avs bvs)"
  "isSameType (ObjectType i aProps aReq) (ObjectType j bProps bReq) =
     (length aReq = length bReq \<and> length aProps = length bProps \<and> every_eq aReq bReq
      \<and> every_same_prop aProps bProps)"
  "isSameType (RecordType i ar) (RecordType j br) = isSameType ar br"
  "isSameType (ReferenceType i an) (ReferenceType j bn) = same_name an bn"
  "isSameType (UnionType i ais) (UnionType j bis) = (length ais = length bis \<and> every_same_item ais bis)"
  by (simp_all add: isSameType_eq)

lemma isSameType_tag: "isSameType a b \<Longrightarrow> type_tag a = type_tag b"
  by (cases a; cases b) (simp_all add: isSameType_eq)


lemma isSameType_other [simp]:
  "type_tag a \<noteq> type_tag b \<Longrightarrow> isSameType a b = False"
  using isSameType_tag by blast

lemma every_eq_iff: "length a = length b \<Longrightarrow> every_eq a b = (a = b)"
  by (induction a b rule: every_eq.induct) auto

lemma same_name_sym: "same_name a b = same_name b a"
  by (induction a b rule: same_name.induct) auto

lemma same_name_refl: "same_name a a"
  by (cases a) auto

lemma isSameType_refl_aux:
  "a = a' \<longrightarrow> isSameType a a'"
  "xs = xs' \<longrightarrow> every_same_item xs xs'"
  "ps = ps' \<longrightarrow> every_same_prop ps ps'"
proof (induction a a' and xs xs' and ps ps' rule: isSameType_every_same_item_every_same_prop.induct)
  case (1 a b)
  then show ?case
    by (cases a) (auto simp: every_eq_iff same_name_refl isSameType_eq)
qed auto

lemma isSameType_refl: "isSameType a a"
  by (simp add: isSameType_refl_aux)

lemma isSameType_sym_aux:
  "isSameType a b = isSameType b a"
  "length xs = length ys \<longrightarrow> every_same_item xs ys = every_same_item ys xs"
  "length ps = length qs \<longrightarrow> every_same_prop ps qs = every_same_prop qs ps"
proof (induction a b and xs ys and ps qs rule: isSameType_every_same_item_every_same_prop.induct)
  case (1 a b)
  show ?case
  proof (cases "type_tag a = type_tag b")
    case True
    with 1 show ?thesis
      by (cases a; cases b) (auto simp: every_eq_iff same_name_sym isSameType_eq)
  next
    case False
    then show ?thesis by (metis isSameType_tag)
  qed
qed auto


lemma isSameType_sym: "isSameType a b = isSameType b a"
  by (rule isSameType_sym_aux(1))

lemma flatten_members_append:
  "flatten_members (xs @ ys) = flatten_members xs @ flatten_members ys"
  by (induction xs rule: flatten_members.induct) (auto split: Type.splits)

lemma first_occurrences_append:
  "first_occurrences kept (xs @ ys) = first_occurrences (first_occurrences kept xs) ys"
  by (induction xs arbitrary: kept) auto

lemma simplify_loop_refines:
  "simplify_loop items working = first_occurrences items (flatten_members working)"
proof (induction items working rule: simplify_loop.induct)
  case (1 items)
  show ?case by simp
next
  case (2 items current working)
  then show ?case
    by (cases current) (auto simp: flatten_members_append first_occurrences_append)
qed

lemma is_union_iff: "is_union t = (\<exists>uid its. t = UnionType uid its)"
proof (cases t)
  case (PrimitiveType p i)
  then show ?thesis by (cases p) (simp_all add: is_union_def)
qed (simp_all add: is_union_def)

lemma flatten_members_no_union: "list_all (\<lambda>t. \<not> is_union t) (flatten_members ms)"
  by (induction ms rule: flatten_members.induct) (auto simp: is_union_iff split: Type.splits)

lemma first_occurrences_no_union:
  "list_all (\<lambda>t. \<not> is_union t) kept \<Longrightarrow> list_all (\<lambda>t. \<not> is_union t) ms
   \<Longrightarrow> list_all (\<lambda>t. \<not> is_union t) (first_occurrences kept ms)"
  by (induction ms arbitrary: kept) auto

lemma no_same_pair_snoc:
  "no_same_pair (ms @ [m]) = (no_same_pair ms \<and> \<not> list_ex (\<lambda>k. isSameType k m) ms)"
  by (induction ms) (auto simp: list_ex_iff)

lemma first_occurrences_no_same_pair:
  "no_same_pair kept \<Longrightarrow> no_same_pair (first_occurrences kept ms)"
  by (induction ms arbitrary: kept) (auto simp: no_same_pair_snoc)

lemma no_same_pair_append:
  "no_same_pair (xs @ y # ys) \<Longrightarrow> \<not> list_ex (\<lambda>k. isSameType k y) xs"
  by (induction xs) (auto simp: list_ex_iff)

lemma flatten_members_fixed:
  "list_all (\<lambda>t. \<not> is_union t) ms \<Longrightarrow> flatten_members ms = ms"
  by (induction ms) (auto simp: is_union_iff split: Type.splits)

lemma first_occurrences_fixed:
  "no_same_pair (kept @ ms) \<Longrightarrow> first_occurrences kept ms = kept @ ms"
proof (induction ms arbitrary: kept)
  case Nil
  then show ?case by simp
next
  case (Cons m ms)
  from Cons.prems have "\<not> list_ex (\<lambda>k. isSameType k m) kept"
    by (rule no_same_pair_append)
  moreover from Cons.prems have "no_same_pair ((kept @ [m]) @ ms)" by simp
  ultimately show ?case using Cons.IH [of "kept @ [m]"] by simp
qed

lemma no_same_pair_nth:
  "no_same_pair ms \<Longrightarrow> i < j \<Longrightarrow> j < length ms \<Longrightarrow> \<not> isSameType (ms ! i) (ms ! j)"
proof (induction ms arbitrary: i j)
  case Nil
  then show ?case by simp
next
  case (Cons m ms)
  show ?case
  proof (cases i)
    case 0
    with Cons.prems show ?thesis by (cases j) (auto simp: list_ex_iff)
  next
    case (Suc i')
    with Cons.prems Cons.IH [of i' "j - 1"] show ?thesis by (cases j) auto
  qed
qed

lemma simplifyUnionType_cases:
  "simplifyUnionType uid its =
     (case first_occurrences [] (flatten_members its) of
        [] \<Rightarrow> UnknownType uid
      | [m] \<Rightarrow> m
      | m # m' # ms \<Rightarrow> UnionType uid (first_occurrences [] (flatten_members its)))"
  by (auto simp: simplifyUnionType_def simplify_loop_refines Let_def split: list.splits)

lemma simplifyUnionType_union:
  assumes "simplifyUnionType uid its = UnionType uid' ms"
  shows "uid' = uid \<and> ms = first_occurrences [] (flatten_members its) \<and> 2 \<le> length ms"
proof -
  let ?kept = "first_occurrences [] (flatten_members its)"
  have nu: "list_all (\<lambda>t. \<not> is_union t) ?kept"
    by (rule first_occurrences_no_union) (simp_all add: flatten_members_no_union)
  show ?thesis
  proof (cases ?kept)
    case Nil
    with assms show ?thesis by (simp add: simplifyUnionType_cases)
  next
    case (Cons m rest)
    show ?thesis
    proof (cases rest)
      case Nil
      with Cons assms nu show ?thesis by (auto simp: simplifyUnionType_cases is_union_iff)
    next
      case (Cons m' rest')
      with \<open>?kept = m # rest\<close> have k: "?kept = m # m' # rest'" by simp
      then have "simplifyUnionType uid its = UnionType uid ?kept"
        by (simp add: simplifyUnionType_cases)
      with assms have "uid' = uid" and "ms = ?kept" by simp_all
      moreover have "2 \<le> length ?kept" by (simp add: k)
      ultimately show ?thesis by simp
    qed
  qed
qed

text \<open>
  Claim C4. \<open>simplifyUnionType\<close> is idempotent: when its result is again a union, simplifying
  that union returns it unchanged; no two members of a resulting union are the same under
  \<open>isSameType\<close>, in either order; and the result is decided by the flattened list with
  duplicates removed: no member gives \<open>unknown\<close> (with the union's id), one member gives that
  member, two or more give a union of them in the order of their first occurrences.
\<close>

theorem simplifyUnionType_idempotent_dedup:
  "(simplifyUnionType uid its = UnionType uid' ms \<longrightarrow>
      simplifyUnionType uid' ms = UnionType uid' ms
      \<and> (\<forall>i < length ms. \<forall>j < length ms. i \<noteq> j \<longrightarrow> \<not> isSameType (ms ! i) (ms ! j)))
   \<and> simplifyUnionType uid its =
       (case first_occurrences [] (flatten_members its) of
          [] \<Rightarrow> UnknownType uid
        | [m] \<Rightarrow> m
        | m # m' # rest \<Rightarrow> UnionType uid (m # m' # rest))"
proof (intro conjI impI)
  assume u: "simplifyUnionType uid its = UnionType uid' ms"
  let ?kept = "first_occurrences [] (flatten_members its)"
  note r = simplifyUnionType_union [OF u]
  from r have ms: "ms = ?kept" by blast
  from r have len: "2 \<le> length ms" by blast
  have nu: "list_all (\<lambda>t. \<not> is_union t) ms" unfolding ms
    by (rule first_occurrences_no_union) (simp_all add: flatten_members_no_union)
  have nsp: "no_same_pair ms" unfolding ms
    by (rule first_occurrences_no_same_pair) simp
  have "first_occurrences [] (flatten_members ms) = ms"
    using nu nsp by (simp add: flatten_members_fixed first_occurrences_fixed)
  with len show "simplifyUnionType uid' ms = UnionType uid' ms"
    by (cases ms; cases "tl ms") (auto simp: simplifyUnionType_cases)
  show "\<forall>i < length ms. \<forall>j < length ms. i \<noteq> j \<longrightarrow> \<not> isSameType (ms ! i) (ms ! j)"
  proof (intro allI impI)
    fix i j assume "i < length ms" "j < length ms" "i \<noteq> j"
    then consider "i < j" | "j < i" by linarith
    then show "\<not> isSameType (ms ! i) (ms ! j)"
    proof cases
      case 1
      with nsp \<open>j < length ms\<close> show ?thesis by (simp add: no_same_pair_nth)
    next
      case 2
      with nsp \<open>i < length ms\<close> have "\<not> isSameType (ms ! j) (ms ! i)"
        by (simp add: no_same_pair_nth)
      then show ?thesis by (simp add: isSameType_sym)
    qed
  qed
next
  show "simplifyUnionType uid its =
       (case first_occurrences [] (flatten_members its) of
          [] \<Rightarrow> UnknownType uid
        | [m] \<Rightarrow> m
        | m # m' # rest \<Rightarrow> UnionType uid (m # m' # rest))"
    by (simp add: simplifyUnionType_cases split: list.splits)
qed

text \<open>The theorem at a union with a nested union and two duplicates.\<close>

theorem simplifyUnionType_idempotent_dedup_witness:
  "simplifyUnionType ''/p''
     [PrimitiveType String ''/p'', UnionType ''/q'' [PrimitiveType String ''/q/0'',
        PrimitiveType Integer ''/q/1''], PrimitiveType Integer ''/p'']
     = UnionType ''/p'' [PrimitiveType String ''/p'', PrimitiveType Integer ''/q/1'']
   \<and> simplifyUnionType ''/p'' [PrimitiveType String ''/p'', PrimitiveType Integer ''/q/1'']
     = UnionType ''/p'' [PrimitiveType String ''/p'', PrimitiveType Integer ''/q/1'']
   \<and> \<not> isSameType (PrimitiveType String ''/p'') (PrimitiveType Integer ''/q/1'')"
proof -
  have e: "simplifyUnionType ''/p''
     [PrimitiveType String ''/p'', UnionType ''/q'' [PrimitiveType String ''/q/0'',
        PrimitiveType Integer ''/q/1''], PrimitiveType Integer ''/p'']
     = UnionType ''/p'' [PrimitiveType String ''/p'', PrimitiveType Integer ''/q/1'']"
    by (simp add: simplifyUnionType_def isSameType_eq)
  from simplifyUnionType_idempotent_dedup [of "''/p''" _ "''/p''"
      "[PrimitiveType String ''/p'', PrimitiveType Integer ''/q/1'']"] e
  show ?thesis by (simp add: isSameType_eq)
qed

section \<open>Properties of the merge\<close>














section \<open>Properties of the loop over the referenced definitions\<close>







section \<open>Properties of the simplifier and the renderer\<close>












lemma add_name_simplifier [simp]: "simplifier (add_name g nm) = simplifier g"
  by (simp add: add_name_def)

lemma createTypeReference_simplifier [simp]:
  "simplifier (snd (createTypeReference g nm args)) = simplifier g"
proof (induction nm arbitrary: g)
  case (Indexed r inner indexes)
  obtain ty g' where c: "createTypeReference (add_name g (Indexed r inner indexes)) inner args = (ty, g')"
    by (cases "createTypeReference (add_name g (Indexed r inner indexes)) inner args")
  from Indexed [of "add_name g (Indexed r inner indexes)"] c
  have "simplifier g' = simplifier g" by simp
  with c show ?case by simp
qed simp_all





lemma set_insert_sorted [simp]: "set (insert_sorted cmp x ys) = insert x (set ys)"
  by (induction ys) auto

lemma set_stable_sort [simp]: "set (stable_sort cmp xs) = set xs"
  by (induction xs) (auto simp: stable_sort_def)










lemma createTypeReference_Name:
  "createTypeReference g (Name nm) args = (TsTypeReference nm args, add_name g (Name nm))"
  by simp








section \<open>The walker: the root, references and the round trip\<close>

text \<open>What a warning and a merge leave as they are.\<close>

lemma warn_fields [simp]:
  "root (warn st l f a) = root st"
  "resourceSchema (warn st l f a) = resourceSchema st"
  "documenter (warn st l f a) = documenter st"
  by (simp_all add: warn_def split: option.splits)

lemma warnExtraKeys_fields [simp]:
  "root (warnExtraKeys st schema ty loc) = root st"
  "resourceSchema (warnExtraKeys st schema ty loc) = resourceSchema st"
  "documenter (warnExtraKeys st schema ty loc) = documenter st"
  by (simp_all add: warnExtraKeys_def Let_def split: sum.splits)

lemma mergeObjects_single:
  "mergeObjects [Obj d] options = Inr \<lparr>conflicts = None, merged_value = d\<rparr>"
  by (simp add: mergeObjects_def mergeObjectsWith_def)

lemma mergeSchemas_single: "mergeSchemas st [Obj d] options loc = Inr (d, st)"
  by (simp add: mergeSchemas_def mergeObjects_single and_then_def)

lemma mergeSchemas_fields:
  "mergeSchemas st objects options loc = Inr (v, st')
   \<Longrightarrow> root st' = root st \<and> resourceSchema st' = resourceSchema st
       \<and> documenter st' = documenter st"
  by (auto simp: mergeSchemas_def and_then_def split: sum.splits option.splits if_splits)

lemma mergeAllOf_fields:
  "mergeAllOf st schema loc = Inr (v, st')
   \<Longrightarrow> root st' = root st \<and> resourceSchema st' = resourceSchema st
       \<and> documenter st' = documenter st"
  by (auto simp: mergeAllOf_def and_then_def dest: mergeSchemas_fields
           split: sum.splits option.splits if_splits)

lemma splitPick_rest_aux:
  "set (map fst kvs) \<subseteq> set keys
   \<Longrightarrow> snd (foldl (\<lambda>(picked, rest) (key, v).
              if key \<in> set keys then (obj_set picked key v, rest)
              else (picked, obj_set rest key v)) (p, []) kvs) = []"
  by (induction kvs arbitrary: p) auto

lemma splitPick_only_picked:
  "set (map fst kvs) \<subseteq> set keys \<Longrightarrow> snd (splitPick (Obj kvs) keys) = []"
  by (simp add: splitPick_def splitPick_rest_aux)

lemma absorb_branches_empty:
  "absorb_branches extract st key [] docs loc = Inr (([], docs), st)"
  by (simp add: absorb_branches_def)

lemma extractDocumentation_documentation_only:
  assumes "mergeAllOf st schema loc = Inr (Obj merged, st1)"
      and "set (map fst merged) \<subseteq> set SchemaDocumentationKeys"
  shows "\<exists>r. extractDocumentation (Suc n) st schema loc = Inr (r, st1) \<and> ed_type r = None"
proof -
  obtain d where sp: "splitPick (Obj merged) SchemaDocumentationKeys = (d, [])"
    using splitPick_only_picked [OF assms(2)] by (cases "splitPick (Obj merged) SchemaDocumentationKeys") auto
  show ?thesis
    using assms(1) sp
    by (simp add: extractDocumentation_body_def and_then_def absorb_branches_empty
                  mergeSchemas_single Let_def)
qed

text \<open>
  Claim C10. When the root of the schema, picked down to \<^verbatim>\<open>allOf\<close>, \<^verbatim>\<open>anyOf\<close>, \<^verbatim>\<open>oneOf\<close>,
  \<^verbatim>\<open>properties\<close> and \<^verbatim>\<open>required\<close> and merged with its \<^verbatim>\<open>allOf\<close>, has documentation fields
  only, \<open>build\<close> fails with the assertion error that names the resource; it does not
  return a resource whose root is \<^verbatim>\<open>unknown\<close>.
\<close>

theorem build_asserts_root_shape:
  assumes "get_prop (resourceSchema st) ''typeName'' = Some (Prim (PStr nm))"
      and "mergeAllOf st (Obj (pick (resourceSchema st) root_keys)) ''/'' = Inr (Obj merged, st1)"
      and "set (map fst merged) \<subseteq> set SchemaDocumentationKeys"
  shows "build (Suc n) st
       = Inl (AssertionError (''expected type to have a value for resource '' @ quoted nm))"
proof -
  obtain r where r: "extractDocumentation (Suc n) st (Obj (pick (resourceSchema st) root_keys)) ''/''
                   = Inr (r, st1)" "ed_type r = None"
    using extractDocumentation_documentation_only [OF assms(2,3)] by blast
  have "resourceSchema st1 = resourceSchema st"
    using mergeAllOf_fields [OF assms(2)] by simp
  with r assms(1) show ?thesis
    by (simp add: build_def and_then_def typeName_of_def del: extractDocumentation.simps)
qed

text \<open>The theorem at a schema whose root holds a title only, from its \<^verbatim>\<open>allOf\<close>.\<close>

theorem build_asserts_root_shape_witness:
  "build 1 (builder_for empty_resource)
   = Inl (AssertionError (''expected type to have a value for resource '' @ quoted ''Test::Empty''))"
proof -
  have a: "get_prop (resourceSchema (builder_for empty_resource)) ''typeName''
         = Some (Prim (PStr ''Test::Empty''))"
    by (simp add: builder_for_def new_ResourceBuilder_def empty_resource_def)
  have b: "mergeAllOf (builder_for empty_resource)
             (Obj (pick (resourceSchema (builder_for empty_resource)) root_keys)) ''/''
         = Inr (Obj [(''title'', Prim (PStr ''Empty''))], builder_for empty_resource)"
    by (simp add: builder_for_def new_ResourceBuilder_def empty_resource_def mergeAllOf_def
                  is_null_def pick_def root_keys_def obj_delete_def and_then_def mergeSchemas_def
                  mergeObjects_def mergeObjectsWith_def merge_object_def merge_member_def)
  have c: "set (map fst [(''title'', Prim (PStr ''Empty''))]) \<subseteq> set SchemaDocumentationKeys"
    by (simp add: SchemaDocumentationKeys_def)
  from build_asserts_root_shape [OF a b c, of 0] show ?thesis by simp
qed








text \<open>
  Claim C2, as amended: for the schema with \<^verbatim>\<open>properties\<close>, \<^verbatim>\<open>required\<close> and
  \<^verbatim>\<open>readOnlyProperties\<close> at the top, \<open>build\<close> returns a resource whose writable view is an
  object with the one property \<^verbatim>\<open>Name\<close>, required, and whose attributes type is an object with
  the one property \<^verbatim>\<open>Id\<close>.
\<close>

theorem round_trip_scenario:
  "\<exists>r. map_sum id fst (build 3 (builder_for round_trip_schema)) = Inr r
     \<and> writable_view 1 r
       = Inr (ObjectType ''/''
                [(''Name'', PropertyInfo (Some []) None None
                     (PrimitiveType String ''/properties/Name''))]
                [''Name''])
     \<and> map_option def_type (attributes r)
       = Some (ObjectType ''/attributes''
                 [(''Id'', PropertyInfo (Some []) (Some True) None
                      (PrimitiveType String ''/properties/Id''))]
                 [''Id''])"
proof -
  let ?r = "\<lparr>typeName = ''Test::Resource'',
        attributes =
          Some \<lparr>def_documentation = None,
                def_type =
                  ObjectType ''/attributes''
                    [(''Id'', PropertyInfo (Some []) (Some True) None
                        (PrimitiveType String ''/properties/Id''))]
                    [''Id'']\<rparr>,
        definitions = [],
        properties =
          \<lparr>def_documentation = None,
           def_type =
             ObjectType ''/''
               [(''Name'', PropertyInfo (Some []) None None
                   (PrimitiveType String ''/properties/Name'')),
                (''Id'', PropertyInfo (Some []) (Some True) (Some True)
                   (PrimitiveType String ''/properties/Id''))]
               [''Name'']\<rparr>\<rparr>"
  have "map_sum id fst (build 3 (builder_for round_trip_schema)) = Inr ?r"
    by code_simp
  moreover have "writable_view 1 ?r
       = Inr (ObjectType ''/''
                [(''Name'', PropertyInfo (Some []) None None
                     (PrimitiveType String ''/properties/Name''))]
                [''Name''])"
    by code_simp
  ultimately show ?thesis by simp
qed

text \<open>
  Claim C2 as stated fails: for the schema as the specification writes it the root has the
  two properties \<^verbatim>\<open>properties\<close> and \<^verbatim>\<open>required\<close>, both of \<^verbatim>\<open>unknown\<close> type, the path
  \<^verbatim>\<open>/properties/Id\<close> finds nothing, and the resource has no attributes type.
\<close>

theorem round_trip_literal_counterexample:
  "map_sum id fst (build 3 (builder_for round_trip_literal))
   = Inr \<lparr>typeName = ''Test::Resource'', attributes = None, definitions = [],
          properties =
            \<lparr>def_documentation = None,
             def_type =
               ObjectType ''/''
                 [(''properties'', PropertyInfo (Some []) None None
                     (UnknownType ''/properties/properties'')),
                  (''required'', PropertyInfo (Some []) None None
                     (UnknownType ''/properties/required''))]
                 []\<rparr>\<rparr>"
  by code_simp

end
